theory Spec2Isabelle
  imports Main
begin

section \<open>Qisclick: the command runner and the provisioning sequence\<close>

text \<open>
  The script \<^verbatim>\<open>Qisclick.py\<close> has two functions: \<^verbatim>\<open>run_command\<close>, a wrapper around
  \<^verbatim>\<open>subprocess.run\<close> that turns the outcome of one child process into a boolean, and
  \<^verbatim>\<open>main\<close>, a straight-line sequence of eight steps built on it.

  Everything outside the script (the file system, the search path, the child processes, the
  platform, the functions of \<^verbatim>\<open>os.path\<close>) is collected in a record \<open>world\<close>; the script
  is a function of that record. What the script does to its surroundings is recorded as a
  list of events, in program order: each \<^verbatim>\<open>print\<close>, each \<^verbatim>\<open>shutil.rmtree\<close> and each
  \<^verbatim>\<open>subprocess.run\<close>.
\<close>

subsection \<open>Values of the Python program\<close>

text \<open>The \<^verbatim>\<open>command\<close> argument is a list of strings or a single string (docstring of
  \<^verbatim>\<open>run_command\<close>: "command (list or str)").\<close>

datatype command = CmdList "string list" | CmdStr string

text \<open>The exception classes that the handlers of the script tell apart.
  \<open>FileNotFoundError\<close> is a subclass of \<open>OSError\<close>; \<open>OSError\<close> stands for every other
  \<open>OSError\<close> (such as \<open>PermissionError\<close>); \<open>OtherException\<close> for every other subclass of
  \<open>Exception\<close>; \<open>KeyboardInterrupt\<close> derives from \<open>BaseException\<close> only, so that
  \<^verbatim>\<open>except Exception\<close> does not catch it. The string is what \<^verbatim>\<open>str(e)\<close> gives.\<close>

datatype py_exception =
    CalledProcessError command int "string option" "string option"
  | FileNotFoundError string
  | OSError string
  | OtherException string
  | KeyboardInterrupt

fun is_OSError :: "py_exception \<Rightarrow> bool" where
  "is_OSError (FileNotFoundError m) = True"
| "is_OSError (OSError m) = True"
| "is_OSError e = False"

fun is_Exception :: "py_exception \<Rightarrow> bool" where
  "is_Exception KeyboardInterrupt = False"
| "is_Exception e = True"

datatype stream = PIPE | Sys_stdin | Sys_stdout | Sys_stderr

text \<open>The keyword arguments of one call of \<^verbatim>\<open>subprocess.run\<close>.\<close>

record run_args =
  ra_args :: command
  ra_cwd :: "string option"
  ra_shell :: bool
  ra_check :: bool
  ra_stdin :: "stream option"
  ra_stdout :: "stream option"
  ra_stderr :: "stream option"
  ra_text :: bool

text \<open>What the operating system makes of one invocation: the child ran and exited with a
  return code, having written the two texts to its standard output and standard error, or
  the invocation itself raised.\<close>

datatype child_outcome = Exited int string string | Raised py_exception

record completed_process =
  cp_returncode :: int
  cp_stdout :: "string option"
  cp_stderr :: "string option"

datatype event = Print string | Rmtree string | Spawn run_args

record world =
  script_dir :: string
  sys_executable :: string
  platform_system :: string
  os_path_join :: "string \<Rightarrow> string list \<Rightarrow> string"
  os_path_basename :: "string \<Rightarrow> string"
  os_path_dirname :: "string \<Rightarrow> string"
  shutil_which :: "string \<Rightarrow> string option"
  shutil_rmtree :: "string \<Rightarrow> py_exception option"
  os_child :: "run_args \<Rightarrow> child_outcome"
  str_CalledProcessError :: "command \<Rightarrow> int \<Rightarrow> string"

text \<open>The state the script threads: which paths exist, and the events so far.\<close>

record state =
  path_exists :: "string \<Rightarrow> bool"
  log :: "event list"

text \<open>How a run of the script ends: it falls off the end of \<^verbatim>\<open>main\<close>, it calls
  \<^verbatim>\<open>sys.exit(n)\<close>, or an exception that no handler catches reaches the top level.\<close>

datatype outcome = Finished | SysExit int | Uncaught py_exception

text \<open>The exit code of the process is 0 when the script finishes or calls \<^verbatim>\<open>sys.exit(0)\<close>;
  an uncaught exception ends the interpreter with a non-zero status.\<close>

fun exits_zero :: "outcome \<Rightarrow> bool" where
  "exits_zero Finished = True"
| "exits_zero (SysExit n) = (n = 0)"
| "exits_zero (Uncaught e) = False"

subsection \<open>Strings\<close>

text \<open>\<^verbatim>\<open>str.strip()\<close> on 8-bit text: the white space of \<^verbatim>\<open>str.isspace\<close> below 128.\<close>

definition py_isspace :: "char \<Rightarrow> bool" where
  "py_isspace c = (of_char c \<in> {9, 10, 11, 12, 13, 28, 29, 30, 31, 32 :: nat})"

definition py_strip :: "string \<Rightarrow> string" where
  "py_strip t = rev (dropWhile py_isspace (rev (dropWhile py_isspace t)))"

fun py_join :: "string \<Rightarrow> string list \<Rightarrow> string" where
  "py_join sep [] = []"
| "py_join sep [x] = x"
| "py_join sep (x # y # ys) = x @ sep @ py_join sep (y # ys)"

text \<open>\<^verbatim>\<open>str.center(width)\<close> with the fill character space, as CPython pads:
  \<open>left = marg div 2 + (marg AND width AND 1)\<close>.\<close>

definition py_center :: "string \<Rightarrow> nat \<Rightarrow> string" where
  "py_center t width =
     (if width \<le> length t then t
      else let marg = width - length t;
               left = marg div 2 + (if odd marg \<and> odd width then 1 else 0)
           in replicate left (CHR '' '') @ t @ replicate (marg - left) (CHR '' ''))"

fun py_str :: "world \<Rightarrow> py_exception \<Rightarrow> string" where
  "py_str w (CalledProcessError c rc so se) = str_CalledProcessError w c rc"
| "py_str w (FileNotFoundError m) = m"
| "py_str w (OSError m) = m"
| "py_str w (OtherException m) = m"
| "py_str w KeyboardInterrupt = []"

subsection \<open>The command runner\<close>

definition emit :: "event \<Rightarrow> state \<Rightarrow> state" where
  "emit e s = s\<lparr>log := log s @ [e]\<rparr>"

definition print :: "string \<Rightarrow> state \<Rightarrow> state" where
  "print t s = emit (Print t) s"

text \<open>\<^verbatim>\<open>subprocess.run\<close>: the call is recorded; a stream is captured only when it is a
  pipe; with \<^verbatim>\<open>check=True\<close> a non-zero return code raises \<open>CalledProcessError\<close>.\<close>

definition subprocess_run :: "world \<Rightarrow> run_args \<Rightarrow> state \<Rightarrow> (py_exception + completed_process) \<times> state" where
  "subprocess_run w a s =
     (case os_child w a of
        Raised e \<Rightarrow> (Inl e, emit (Spawn a) s)
      | Exited rc out err \<Rightarrow>
          (let so = (if ra_stdout a = Some PIPE then Some out else None);
               se = (if ra_stderr a = Some PIPE then Some err else None)
           in if ra_check a \<and> rc \<noteq> 0
              then (Inl (CalledProcessError (ra_args a) rc so se), emit (Spawn a) s)
              else (Inr \<lparr>cp_returncode = rc, cp_stdout = so, cp_stderr = se\<rparr>, emit (Spawn a) s)))"

text \<open>\<^verbatim>\<open>if t: print(prefix + t.strip())\<close> for a text that may be \<^verbatim>\<open>None\<close>.\<close>

definition print_if_text :: "string \<Rightarrow> string option \<Rightarrow> state \<Rightarrow> state" where
  "print_if_text prefix t s =
     (case t of None \<Rightarrow> s
      | Some u \<Rightarrow> if u \<noteq> [] then print (prefix @ py_strip u) s else s)"

definition run_command_args :: "command \<Rightarrow> string option \<Rightarrow> bool \<Rightarrow> bool \<Rightarrow> bool \<Rightarrow> run_args" where
  "run_command_args command cwd shell check capture_output =
     \<lparr>ra_args = command, ra_cwd = cwd, ra_shell = shell, ra_check = check,
      ra_stdin = None,
      ra_stdout = (if capture_output then Some PIPE else None),
      ra_stderr = (if capture_output then Some PIPE else None),
      ra_text = True\<rparr>"

definition command_text :: "command \<Rightarrow> string" where
  "command_text command = (case command of CmdList xs \<Rightarrow> py_join '' '' xs | CmdStr c \<Rightarrow> c)"

definition msg_command_not_found :: string where
  "msg_command_not_found =
     ''Command not found. Please ensure necessary executables (like python, pip) are in your PATH.''"

text \<open>\<^verbatim>\<open>run_command(command, cwd, shell, check, capture_output)\<close>. The result is \<open>Inr b\<close> when
  the function returns \<open>b\<close>, and \<open>Inl e\<close> when the exception \<open>e\<close> leaves it.\<close>

definition run_command ::
  "world \<Rightarrow> command \<Rightarrow> string option \<Rightarrow> bool \<Rightarrow> bool \<Rightarrow> bool \<Rightarrow> state \<Rightarrow> (py_exception + bool) \<times> state" where
  "run_command w command cwd shell check capture_output s =
     (case subprocess_run w (run_command_args command cwd shell check capture_output) s of
        (Inr result, s1) \<Rightarrow>
          (Inr True,
           if capture_output
           then print_if_text [] (cp_stderr result) (print_if_text [] (cp_stdout result) s1)
           else s1)
      | (Inl (CalledProcessError c rc so se), s1) \<Rightarrow>
          (Inr False,
           print (''Error details: '' @ py_str w (CalledProcessError c rc so se))
             (print_if_text ''Stderr: '' se
               (print_if_text ''Stdout: '' so
                 (print (''Error executing command: '' @ command_text command) s1))))
      | (Inl (FileNotFoundError m), s1) \<Rightarrow> (Inr False, print msg_command_not_found s1)
      | (Inl KeyboardInterrupt, s1) \<Rightarrow> (Inl KeyboardInterrupt, s1)
      | (Inl e, s1) \<Rightarrow>
          (Inr False, print (''An unexpected error occurred: '' @ py_str w e) s1))"

subsection \<open>Sequencing\<close>

text \<open>A step either lets the script go on (\<open>None\<close>) or ends the run with an outcome.\<close>

type_synonym step = "state \<Rightarrow> outcome option \<times> state"

fun steps :: "step list \<Rightarrow> step" where
  "steps [] s = (None, s)"
| "steps (f # fs) s = (case f s of (None, s') \<Rightarrow> steps fs s' | (Some t, s') \<Rightarrow> (Some t, s'))"

definition say :: "string \<Rightarrow> step" where
  "say t s = (None, print t s)"

text \<open>\<^verbatim>\<open>if not run_command(...): print(msg); sys.exit(1)\<close>\<close>

definition must :: "string \<Rightarrow> (state \<Rightarrow> (py_exception + bool) \<times> state) \<Rightarrow> step" where
  "must msg call s =
     (case call s of
        (Inl e, s') \<Rightarrow> (Some (Uncaught e), s')
      | (Inr ok, s') \<Rightarrow> if \<not> ok then (Some (SysExit 1), print msg s') else (None, s'))"

subsection \<open>Paths and commands of the script\<close>

definition venv_dir :: "world \<Rightarrow> string" where
  "venv_dir w = os_path_join w (script_dir w) [''qisclick_env'']"

definition pip_path :: "world \<Rightarrow> string" where
  "pip_path w =
     (if platform_system w = ''Windows''
      then os_path_join w (venv_dir w) [''Scripts'', ''pip.exe'']
      else os_path_join w (venv_dir w) [''bin'', ''pip''])"

definition python_path :: "world \<Rightarrow> string" where
  "python_path w =
     (if platform_system w = ''Windows''
      then os_path_join w (venv_dir w) [''Scripts'', ''python.exe'']
      else os_path_join w (venv_dir w) [''bin'', ''python''])"

definition packages_to_install :: "string list" where
  "packages_to_install = [''qiskit'', ''qiskit-aer'', ''qiskit-ibm-runtime'', ''qiskit-terra'']"

definition purge_command :: "string \<Rightarrow> command" where
  "purge_command system_pip = CmdList [system_pip, ''cache'', ''purge'']"

definition create_command :: "world \<Rightarrow> command" where
  "create_command w = CmdList [sys_executable w, ''-m'', ''venv'', venv_dir w]"

definition upgrade_command :: "world \<Rightarrow> command" where
  "upgrade_command w = CmdList [pip_path w, ''install'', ''--upgrade'', ''pip'']"

definition install_command :: "world \<Rightarrow> string \<Rightarrow> command" where
  "install_command w package = CmdList [pip_path w, ''install'', package]"

definition qiskit_test_script :: string where
  \<open>qiskit_test_script = ''\<newline>'' @ concat (map (\<lambda>l. l @ ''\<newline>'')
   [''from qiskit import QuantumCircuit, transpile'',
    ''from qiskit_aer import AerSimulator'',
    ''import sys'',
    [],
    ''try:'',
    ''    # Create a quantum circuit with 2 qubits and 2 classical bits'',
    ''    qc = QuantumCircuit(2, 2)'',
    [],
    ''    # Add a Hadamard gate to qubit 0, putting it in superposition'',
    ''    qc.h(0)'',
    [],
    ''    # Add a CNOT gate with qubit 0 as control and qubit 1 as target'',
    ''    qc.cx(0, 1)'',
    [],
    ''    # Measure both qubits and map them to classical bits'',
    ''    qc.measure([0, 1], [0, 1])'',
    [],
    ''    # Use the AerSimulator'',
    ''    simulator = AerSimulator()'',
    [],
    ''    # Transpile the circuit for the simulator'',
    ''    compiled_circuit = transpile(qc, simulator)'',
    [],
    ''    # Run the circuit on the simulator and get results'',
    ''    job = simulator.run(compiled_circuit, shots=1024)'',
    ''    result = job.result()'',
    ''    counts = result.get_counts(qc)'',
    [],
    ''    print("'' @ [CHR 0x5C] @ ''nQiskit test successful! Results:")'',
    ''    print(f"Measurement counts: {counts}")'',
    ''    print("Your Qiskit installation is working correctly.")'',
    [],
    ''except ImportError as e:'',
    ''    print(f"Qiskit test failed: Missing module. {e}")'',
    ''    print("Please ensure all Qiskit components were installed correctly.")'',
    ''    sys.exit(1)'',
    ''except Exception as e:'',
    ''    print(f"An unexpected error occurred during Qiskit test: {e}")'',
    ''    sys.exit(1)''])\<close>

definition verify_command :: "world \<Rightarrow> command" where
  "verify_command w = CmdList [python_path w, ''-c'', qiskit_test_script]"

definition interactive_args :: "world \<Rightarrow> run_args" where
  "interactive_args w =
     \<lparr>ra_args = CmdStr (python_path w), ra_cwd = None, ra_shell = False, ra_check = False,
      ra_stdin = Some Sys_stdin, ra_stdout = Some Sys_stdout, ra_stderr = Some Sys_stderr,
      ra_text = False\<rparr>"

subsection \<open>The messages of the fatal paths and of the cache purge\<close>

definition msg_remove_error :: "world \<Rightarrow> py_exception \<Rightarrow> string" where
  "msg_remove_error w e = ''Error removing old virtual environment: '' @ py_str w e"

definition msg_create_failed :: string where
  "msg_create_failed = ''Failed to create virtual environment. Exiting.''"

definition msg_upgrade_failed :: string where
  "msg_upgrade_failed = ''Failed to upgrade pip. Exiting.''"

definition msg_install_error :: "string \<Rightarrow> string" where
  "msg_install_error package =
     ''Error installing '' @ package @ ''. Please check your internet connection. Exiting.''"

definition msg_test_failed :: string where
  "msg_test_failed = ''Qiskit test failed. Please review the output above for errors.''"

definition msg_launch_error :: "world \<Rightarrow> py_exception \<Rightarrow> string" where
  "msg_launch_error w e = ''Error launching interactive Python interpreter: '' @ py_str w e"

definition msg_purge_warning :: string where
  "msg_purge_warning =
     ''Warning: Could not purge pip cache. This might be normal if no cache exists.''"

definition msg_purge_done :: string where
  "msg_purge_done = ''Pip cache purged successfully (or no cache to purge).''"

definition msg_no_pip :: string where
  "msg_no_pip = ''Warning: 'pip' command not found in system PATH. Cannot purge cache.''"

definition msg_reactivate :: "world \<Rightarrow> string" where
  "msg_reactivate w =
     (if platform_system w = ''Windows''
      then os_path_join w (venv_dir w) [''Scripts'', ''activate.bat'']
      else ''source '' @ os_path_join w (venv_dir w) [''bin'', ''activate''])"

subsection \<open>The steps of \<^verbatim>\<open>main\<close>\<close>

definition banner :: step where
  "banner = steps
     [say (''\<newline>'' @ replicate 50 (CHR ''='')),
      say (py_center ''        Qisclick'' 50),
      say (py_center ''        by incredibit'' 50),
      say (replicate 50 (CHR ''='') @ ''\<newline>'')]"

text \<open>Step 1. A successful \<^verbatim>\<open>shutil.rmtree\<close> leaves the path absent; an exception that is
  not an \<open>OSError\<close> is not caught by the handler.\<close>

definition teardown :: "world \<Rightarrow> step" where
  "teardown w s =
     (if path_exists s (venv_dir w)
      then (let s1 = emit (Rmtree (venv_dir w))
                       (print (''Removing existing virtual environment at '' @ venv_dir w @ ''...'') s)
            in case shutil_rmtree w (venv_dir w) of
                 None \<Rightarrow>
                   (None, print ''Old virtual environment removed successfully.''
                            (s1\<lparr>path_exists := (path_exists s1)(venv_dir w := False)\<rparr>))
               | Some e \<Rightarrow>
                   if is_OSError e then (Some (SysExit 1), print (msg_remove_error w e) s1)
                   else (Some (Uncaught e), s1))
      else (None, print (''No existing virtual environment found at '' @ venv_dir w
                           @ '', skipping removal.'') s))"

text \<open>Step 2. \<^verbatim>\<open>if system_pip:\<close> holds for a non-empty string.\<close>

definition purge_cache :: "world \<Rightarrow> step" where
  "purge_cache w s =
     (let s1 = print ''Attempting to clear pip cache for Qiskit residues...'' s
      in case shutil_which w ''pip'' of
           None \<Rightarrow> (None, print msg_no_pip s1)
         | Some system_pip \<Rightarrow>
             if system_pip = [] then (None, print msg_no_pip s1)
             else (case run_command w (purge_command system_pip) None False False False s1 of
                     (Inl e, s2) \<Rightarrow> (Some (Uncaught e), s2)
                   | (Inr ok, s2) \<Rightarrow>
                       if \<not> ok then (None, print msg_purge_warning s2)
                       else (None, print msg_purge_done s2)))"

text \<open>Step 3.\<close>

definition create_env :: "world \<Rightarrow> step" where
  "create_env w = steps
     [say (''Creating a new virtual environment named '' @ [CHR 0x27]
           @ os_path_basename w (venv_dir w) @ [CHR 0x27] @ '' at '' @ [CHR 0x27]
           @ os_path_dirname w (venv_dir w) @ [CHR 0x27] @ ''...''),
      must msg_create_failed (run_command w (create_command w) None False True True),
      say ''New virtual environment created successfully.'']"

text \<open>Step 4.\<close>

definition upgrade_pip :: "world \<Rightarrow> step" where
  "upgrade_pip w = steps
     [say ''Upgrading pip in the new virtual environment...'',
      must msg_upgrade_failed (run_command w (upgrade_command w) None False True True),
      say ''Pip upgraded successfully.'']"

text \<open>Step 5: the body of the loop, the loop, and the step.\<close>

definition install_package :: "world \<Rightarrow> string \<Rightarrow> step" where
  "install_package w package = steps
     [say (''Installing '' @ package @ ''...''),
      must (msg_install_error package)
        (run_command w (install_command w package) None False True True),
      say (package @ '' installed.'')]"

fun install_loop :: "world \<Rightarrow> string list \<Rightarrow> step" where
  "install_loop w [] s = (None, s)"
| "install_loop w (package # rest) s =
     (case install_package w package s of
        (None, s') \<Rightarrow> install_loop w rest s'
      | (Some t, s') \<Rightarrow> (Some t, s'))"

definition install_packages :: "world \<Rightarrow> step" where
  "install_packages w = steps
     [say ''Installing Qiskit and its components (latest compatible versions)...'',
      install_loop w packages_to_install,
      say ''\<newline>All specified Qiskit components installed successfully!'']"

text \<open>Step 6.\<close>

definition verify :: "world \<Rightarrow> step" where
  "verify w = steps
     [say ''\<newline>Running a simple Qiskit test to verify installation...'',
      must msg_test_failed (run_command w (verify_command w) None False True False),
      say ''\<newline>Qiskit test completed successfully!'']"

text \<open>Step 7: \<^verbatim>\<open>subprocess.run\<close> is called directly, inside \<^verbatim>\<open>try ... except Exception\<close>;
  the completed process is discarded.\<close>

definition launch :: "world \<Rightarrow> step" where
  "launch w s =
     (case subprocess_run w (interactive_args w) s of
        (Inr result, s1) \<Rightarrow> (None, s1)
      | (Inl e, s1) \<Rightarrow>
          if is_Exception e then (Some (SysExit 1), print (msg_launch_error w e) s1)
          else (Some (Uncaught e), s1))"

definition interactive :: "world \<Rightarrow> step" where
  "interactive w = steps
     [say ''\<newline>Installation and test complete! Your 'qisclick' virtual environment is ready.'',
      say ''Launching an interactive Python interpreter within 'qisclick' environment...'',
      say ''Type 'exit()' and press Enter to quit the interpreter.'',
      launch w]"

text \<open>Step 8.\<close>

definition guidance :: "world \<Rightarrow> step" where
  "guidance w = steps
     [say ''\<newline>Exited 'qisclick' interactive Python interpreter.'',
      say ''You can activate it again anytime by running:'',
      say (msg_reactivate w)]"

text \<open>Everything after step 1, and the whole script from a given state.\<close>

definition after_teardown :: "world \<Rightarrow> step" where
  "after_teardown w = steps
     [purge_cache w, create_env w, upgrade_pip w, install_packages w, verify w,
      interactive w, guidance w]"

definition script :: "world \<Rightarrow> step" where
  "script w = steps [banner, teardown w, after_teardown w]"

definition initial :: "(string \<Rightarrow> bool) \<Rightarrow> state" where
  "initial fs = \<lparr>path_exists = fs, log = []\<rparr>"

definition main :: "world \<Rightarrow> (string \<Rightarrow> bool) \<Rightarrow> outcome \<times> state" where
  "main w fs =
     (case script w (initial fs) of
        (None, s) \<Rightarrow> (Finished, s)
      | (Some t, s) \<Rightarrow> (t, s))"

subsection \<open>Reading a run\<close>

text \<open>The processes started, in order.\<close>

fun spawned :: "event list \<Rightarrow> run_args list" where
  "spawned [] = []"
| "spawned (Spawn a # evs) = a # spawned evs"
| "spawned (e # evs) = spawned evs"

fun removals :: "event list \<Rightarrow> string list" where
  "removals [] = []"
| "removals (Rmtree p # evs) = p # removals evs"
| "removals (e # evs) = removals evs"

text \<open>The arguments with which each step calls \<^verbatim>\<open>subprocess.run\<close> through \<open>run_command\<close>.\<close>

definition purge_args :: "string \<Rightarrow> run_args" where
  "purge_args system_pip = run_command_args (purge_command system_pip) None False False False"

definition create_args :: "world \<Rightarrow> run_args" where
  "create_args w = run_command_args (create_command w) None False True True"

definition upgrade_args :: "world \<Rightarrow> run_args" where
  "upgrade_args w = run_command_args (upgrade_command w) None False True True"

definition install_args :: "world \<Rightarrow> string \<Rightarrow> run_args" where
  "install_args w package = run_command_args (install_command w package) None False True True"

definition verify_args :: "world \<Rightarrow> run_args" where
  "verify_args w = run_command_args (verify_command w) None False True False"

text \<open>Three ways an invocation can go in a world, as \<open>run_command\<close> sees them: it returns
  \<open>True\<close>, it returns \<open>False\<close>, or an exception outside \<open>Exception\<close> passes through it.\<close>

definition succeeds :: "world \<Rightarrow> run_args \<Rightarrow> bool" where
  "succeeds w a =
     (case os_child w a of Exited rc out err \<Rightarrow> \<not> ra_check a \<or> rc = 0 | Raised e \<Rightarrow> False)"

definition fails :: "world \<Rightarrow> run_args \<Rightarrow> bool" where
  "fails w a =
     (case os_child w a of Exited rc out err \<Rightarrow> ra_check a \<and> rc \<noteq> 0 | Raised e \<Rightarrow> is_Exception e)"

definition interrupted :: "world \<Rightarrow> run_args \<Rightarrow> bool" where
  "interrupted w a =
     (case os_child w a of Exited rc out err \<Rightarrow> False | Raised e \<Rightarrow> \<not> is_Exception e)"

text \<open>The system pip that step 2 uses, if \<^verbatim>\<open>shutil.which\<close> finds one.\<close>

definition system_pip :: "world \<Rightarrow> string option" where
  "system_pip w =
     (case shutil_which w ''pip'' of None \<Rightarrow> None | Some p \<Rightarrow> if p = [] then None else Some p)"

definition purge_spawn :: "world \<Rightarrow> run_args list" where
  "purge_spawn w = (case system_pip w of None \<Rightarrow> [] | Some p \<Rightarrow> [purge_args p])"

definition purge_passes :: "world \<Rightarrow> bool" where
  "purge_passes w = (case system_pip w of None \<Rightarrow> True | Some p \<Rightarrow> \<not> interrupted w (purge_args p))"

definition teardown_passes :: "world \<Rightarrow> (string \<Rightarrow> bool) \<Rightarrow> bool" where
  "teardown_passes w fs = (\<not> fs (venv_dir w) \<or> shutil_rmtree w (venv_dir w) = None)"

definition launched :: "world \<Rightarrow> bool" where
  "launched w = (case os_child w (interactive_args w) of Exited rc out err \<Rightarrow> True | Raised e \<Rightarrow> False)"

text \<open>The packages whose installation the loop attempts: those up to and including the
  first one whose installation does not succeed.\<close>

fun attempted :: "world \<Rightarrow> string list \<Rightarrow> string list" where
  "attempted w [] = []"
| "attempted w (p # ps) = (if succeeds w (install_args w p) then p # attempted w ps else [p])"

text \<open>Steps 1 to 4 let the run reach the installation loop.\<close>

definition reaches_install :: "world \<Rightarrow> (string \<Rightarrow> bool) \<Rightarrow> bool" where
  "reaches_install w fs =
     (teardown_passes w fs \<and> purge_passes w \<and> succeeds w (create_args w)
      \<and> succeeds w (upgrade_args w))"

text \<open>Every package of the list installs; the run reaches the interactive launch.\<close>

definition installs_all :: "world \<Rightarrow> bool" where
  "installs_all w = list_all (\<lambda>p. succeeds w (install_args w p)) packages_to_install"

definition reaches_launch :: "world \<Rightarrow> (string \<Rightarrow> bool) \<Rightarrow> bool" where
  "reaches_launch w fs = (reaches_install w fs \<and> installs_all w \<and> succeeds w (verify_args w))"

text \<open>The state in which step 3 starts, when steps 1 and 2 let the run go on.\<close>

definition state_at_creation :: "world \<Rightarrow> (string \<Rightarrow> bool) \<Rightarrow> state" where
  "state_at_creation w fs = snd (steps [banner, teardown w, purge_cache w] (initial fs))"

text \<open>A state with an empty log, and the events a step emits from it. A step is uniform
  when from every state it ends the same way and appends the same events.\<close>

definition blank :: state where
  "blank = \<lparr>path_exists = (\<lambda>p. False), log = []\<rparr>"

definition events_of :: "step \<Rightarrow> event list" where
  "events_of f = log (snd (f blank))"

definition uniform :: "step \<Rightarrow> bool" where
  "uniform f = (\<forall>s. f s = (fst (f blank), s\<lparr>log := log s @ events_of f\<rparr>))"

text \<open>The success condition as the specification words it for the exit code 0: every step
  succeeds, up to and including a clean exit (return code 0) of the interactive session.\<close>

definition spec_full_success :: "world \<Rightarrow> (string \<Rightarrow> bool) \<Rightarrow> bool" where
  "spec_full_success w fs =
     (reaches_launch w fs
      \<and> (case os_child w (interactive_args w) of Exited rc out err \<Rightarrow> rc = 0 | Raised e \<Rightarrow> False))"

subsection \<open>Worlds for the examples\<close>

text \<open>\<^verbatim>\<open>posixpath.join\<close>, \<^verbatim>\<open>posixpath.basename\<close> and \<^verbatim>\<open>posixpath.dirname\<close>.\<close>

fun posixpath_join :: "string \<Rightarrow> string list \<Rightarrow> string" where
  "posixpath_join a [] = a"
| "posixpath_join a (b # bs) =
     posixpath_join
       (if b \<noteq> [] \<and> hd b = CHR ''/'' then b
        else if a = [] \<or> last a = CHR ''/'' then a @ b
        else a @ ''/'' @ b) bs"

definition posixpath_basename :: "string \<Rightarrow> string" where
  "posixpath_basename p = rev (takeWhile (\<lambda>c. c \<noteq> CHR ''/'') (rev p))"

definition posixpath_dirname :: "string \<Rightarrow> string" where
  "posixpath_dirname p =
     (let head = rev (dropWhile (\<lambda>c. c \<noteq> CHR ''/'') (rev p))
      in if head \<noteq> [] \<and> \<not> list_all (\<lambda>c. c = CHR ''/'') head
         then rev (dropWhile (\<lambda>c. c = CHR ''/'') (rev head)) else head)"

text \<open>A Linux machine with pip on the search path, on which removing a directory works;
  the behaviour of the child processes is left open.\<close>

definition linux_world :: "(run_args \<Rightarrow> child_outcome) \<Rightarrow> world" where
  "linux_world child =
     \<lparr>script_dir = ''/home/u/Qisclick'', sys_executable = ''/usr/bin/python3'',
      platform_system = ''Linux'', os_path_join = posixpath_join,
      os_path_basename = posixpath_basename, os_path_dirname = posixpath_dirname,
      shutil_which = (\<lambda>name. if name = ''pip'' then Some ''/usr/bin/pip'' else None),
      shutil_rmtree = (\<lambda>p. None),
      os_child = child,
      str_CalledProcessError = (\<lambda>c rc. ''Command returned non-zero exit status.'')\<rparr>"

text \<open>Every child exits with 0 and writes nothing.\<close>

definition all_well :: "run_args \<Rightarrow> child_outcome" where
  "all_well a = Exited 0 [] []"

text \<open>The child of a command whose last argument is the given word behaves as given;
  every other child exits with 0.\<close>

definition last_word :: "command \<Rightarrow> string" where
  "last_word c = (case c of CmdList xs \<Rightarrow> (if xs = [] then [] else last xs) | CmdStr x \<Rightarrow> x)"

definition only_on :: "string \<Rightarrow> child_outcome \<Rightarrow> run_args \<Rightarrow> child_outcome" where
  "only_on word r a = (if last_word (ra_args a) = word then r else Exited 0 [] [])"

text \<open>No path exists at the start; the environment directory of the Linux world exists.\<close>

definition nothing_there :: "string \<Rightarrow> bool" where
  "nothing_there p = False"

definition env_there :: "string \<Rightarrow> bool" where
  "env_there p = (p = ''/home/u/Qisclick/qisclick_env'')"

text \<open>A Windows machine without pip on the search path. The join is that of
  \<^verbatim>\<open>ntpath\<close> for relative components below a directory: a backslash between them.\<close>

definition windows_world :: "(run_args \<Rightarrow> child_outcome) \<Rightarrow> world" where
  "windows_world child =
     \<lparr>script_dir = ''C:'' @ [CHR 0x5C] @ ''Qisclick'', sys_executable = ''python.exe'',
      platform_system = ''Windows'',
      os_path_join = (\<lambda>a bs. py_join [CHR 0x5C] (a # bs)),
      os_path_basename = (\<lambda>p. rev (takeWhile (\<lambda>c. c \<noteq> CHR 0x5C) (rev p))),
      os_path_dirname = (\<lambda>p. rev (drop 1 (dropWhile (\<lambda>c. c \<noteq> CHR 0x5C) (rev p)))),
      shutil_which = (\<lambda>name. None),
      shutil_rmtree = (\<lambda>p. Some (OSError ''Access is denied'')),
      os_child = child,
      str_CalledProcessError = (\<lambda>c rc. ''Command returned non-zero exit status.'')\<rparr>"


section \<open>Basic facts\<close>

subsection \<open>Events, states and the command runner\<close>

lemma log_emit: "log (emit e s) = log s @ [e]" by (simp add: emit_def)
lemma path_exists_emit: "path_exists (emit e s) = path_exists s" by (simp add: emit_def)
lemma log_print: "log (print t s) = log s @ [Print t]" by (simp add: print_def emit_def)
lemma path_exists_print: "path_exists (print t s) = path_exists s" by (simp add: print_def emit_def)

lemma spawned_append: "spawned (xs @ ys) = spawned xs @ spawned ys"
  by (induction xs rule: spawned.induct) simp_all

lemma removals_append: "removals (xs @ ys) = removals xs @ removals ys"
  by (induction xs rule: removals.induct) simp_all

lemma print_if_text_cases:
  "print_if_text prefix t s = s \<or> (\<exists>m. print_if_text prefix t s = print m s)"
  by (auto simp: print_if_text_def split: option.splits)

lemma spawned_print_if_text: "spawned (log (print_if_text p t s)) = spawned (log s)"
  by (auto simp: print_if_text_def log_print spawned_append split: option.splits)

lemma removals_print_if_text: "removals (log (print_if_text p t s)) = removals (log s)"
  by (auto simp: print_if_text_def log_print removals_append split: option.splits)

lemma path_exists_print_if_text: "path_exists (print_if_text p t s) = path_exists s"
  by (auto simp: print_if_text_def path_exists_print split: option.splits)

lemma fst_run_command_True:
  "fst (run_command w c cwd sh ch cap s) = Inr True \<longleftrightarrow> succeeds w (run_command_args c cwd sh ch cap)"
  by (auto simp: run_command_def subprocess_run_def succeeds_def run_command_args_def Let_def
      split: child_outcome.splits py_exception.splits)

lemma fst_run_command_False:
  "fst (run_command w c cwd sh ch cap s) = Inr False \<longleftrightarrow> fails w (run_command_args c cwd sh ch cap)"
  by (auto simp: run_command_def subprocess_run_def fails_def run_command_args_def Let_def
      split: child_outcome.splits py_exception.splits)

lemma fst_run_command_Inl:
  "fst (run_command w c cwd sh ch cap s) = Inl e \<longleftrightarrow>
     e = KeyboardInterrupt \<and> interrupted w (run_command_args c cwd sh ch cap)"
  by (auto simp: run_command_def subprocess_run_def interrupted_def run_command_args_def Let_def
      split: child_outcome.splits py_exception.splits)

subsection \<open>Sequencing and guarded calls\<close>

lemma outcome_trichotomy: "succeeds w a \<or> fails w a \<or> interrupted w a"
  by (auto simp: succeeds_def fails_def interrupted_def split: child_outcome.splits)


lemma succeeds_not_fails: "succeeds w a \<Longrightarrow> \<not> fails w a"
  by (auto simp: succeeds_def fails_def split: child_outcome.splits)






lemma steps_pass: "fst (f s) = None \<Longrightarrow> steps (f # fs) s = steps fs (snd (f s))"
  by (cases "f s") simp


lemma steps_stop: "fst (f s) = Some t \<Longrightarrow> steps (f # fs) s = f s"
  by (cases "f s") simp


lemma steps_single: "steps [f] = f"
proof
  fix s show "steps [f] s = f s"
    by (cases "f s") (auto split: option.splits)
qed


lemma steps_append:
  "steps (fs @ gs) s = (case steps fs s of (None, s') \<Rightarrow> steps gs s' | (Some t, s') \<Rightarrow> (Some t, s'))"
  by (induction fs arbitrary: s) (auto split: prod.splits option.splits)


lemma steps_nested: "steps (fs @ [steps gs]) = steps (fs @ gs)"
proof
  fix s show "steps (fs @ [steps gs]) s = steps (fs @ gs) s"
    by (simp add: steps_append steps_single del: steps.simps split: prod.splits option.splits)
qed


lemma script_flat:
  "script w = steps [banner, teardown w, purge_cache w, create_env w, upgrade_pip w,
                     install_packages w, verify w, interactive w, guidance w]"
  using steps_nested [of "[banner, teardown w]"
      "[purge_cache w, create_env w, upgrade_pip w, install_packages w, verify w, interactive w, guidance w]"]
  by (simp add: script_def after_teardown_def del: steps.simps)


lemma say_simps:
  "fst (say t s) = None" "log (snd (say t s)) = log s @ [Print t]"
  "path_exists (snd (say t s)) = path_exists s"
  by (simp_all add: say_def log_print path_exists_print)

lemma spawned_run_command:
  "spawned (log (snd (run_command w c cwd sh ch cap s))) = spawned (log s) @ [run_command_args c cwd sh ch cap]"
  by (auto simp: run_command_def subprocess_run_def Let_def log_print log_emit spawned_append
      spawned_print_if_text split: child_outcome.splits py_exception.splits)


lemma removals_run_command:
  "removals (log (snd (run_command w c cwd sh ch cap s))) = removals (log s)"
  by (auto simp: run_command_def subprocess_run_def Let_def log_print log_emit removals_append
      removals_print_if_text split: child_outcome.splits py_exception.splits)


lemma path_exists_run_command:
  "path_exists (snd (run_command w c cwd sh ch cap s)) = path_exists s"
  by (auto simp: run_command_def subprocess_run_def Let_def path_exists_print path_exists_emit
      path_exists_print_if_text split: child_outcome.splits py_exception.splits)

lemma must_None:
  "fst (must msg (run_command w c cwd sh ch cap) s) = None \<longleftrightarrow> succeeds w (run_command_args c cwd sh ch cap)"
  using fst_run_command_True [of w c cwd sh ch cap s]
  by (auto simp: must_def split: prod.splits sum.splits)


lemma must_fails:
  assumes "fails w (run_command_args c cwd sh ch cap)"
  shows "fst (must msg (run_command w c cwd sh ch cap) s) = Some (SysExit 1)"
    and "last (log (snd (must msg (run_command w c cwd sh ch cap) s))) = Print msg"
  using assms fst_run_command_False [of w c cwd sh ch cap s]
  by (auto simp: must_def log_print split: prod.splits sum.splits)


lemma must_interrupted:
  assumes "interrupted w (run_command_args c cwd sh ch cap)"
  shows "must msg (run_command w c cwd sh ch cap) s
         = (Some (Uncaught KeyboardInterrupt), snd (run_command w c cwd sh ch cap s))"
proof -
  from assms have "fst (run_command w c cwd sh ch cap s) = Inl KeyboardInterrupt"
    by (simp add: fst_run_command_Inl)
  then show ?thesis
    by (cases "run_command w c cwd sh ch cap s") (simp add: must_def)
qed

lemma must_facts:
  "spawned (log (snd (must msg (run_command w c cwd sh ch cap) s))) = spawned (log s) @ [run_command_args c cwd sh ch cap]"
  "removals (log (snd (must msg (run_command w c cwd sh ch cap) s))) = removals (log s)"
  "path_exists (snd (must msg (run_command w c cwd sh ch cap) s)) = path_exists s"
  using spawned_run_command [of w c cwd sh ch cap s] removals_run_command [of w c cwd sh ch cap s]
    path_exists_run_command [of w c cwd sh ch cap s]
  by (auto simp: must_def log_print spawned_append removals_append path_exists_print
      split: prod.splits sum.splits)

subsection \<open>Guarded steps\<close>

lemma gated_None:
  "fst (steps [say a, must msg (run_command w c cwd sh ch cap), say b] s) = None
     \<longleftrightarrow> succeeds w (run_command_args c cwd sh ch cap)"
proof (cases "succeeds w (run_command_args c cwd sh ch cap)")
  case True
  then have "fst (must msg (run_command w c cwd sh ch cap) (snd (say a s))) = None"
    by (simp add: must_None)
  with True show ?thesis
    by (simp add: steps_pass say_simps steps_single del: steps.simps)
next
  case False
  then obtain t where "fst (must msg (run_command w c cwd sh ch cap) (snd (say a s))) = Some t"
    using must_None [of msg w c cwd sh ch cap "snd (say a s)"] by auto
  with False show ?thesis
    by (simp add: steps_pass steps_stop say_simps del: steps.simps)
qed

lemma gated_fails:
  assumes "fails w (run_command_args c cwd sh ch cap)"
  shows "fst (steps [say a, must msg (run_command w c cwd sh ch cap), say b] s) = Some (SysExit 1)"
    and "last (log (snd (steps [say a, must msg (run_command w c cwd sh ch cap), say b] s))) = Print msg"
  using must_fails [OF assms, of msg "snd (say a s)"]
  by (simp_all add: steps_pass steps_stop say_simps del: steps.simps)

lemma gated_interrupted:
  assumes "interrupted w (run_command_args c cwd sh ch cap)"
  shows "fst (steps [say a, must msg (run_command w c cwd sh ch cap), say b] s)
         = Some (Uncaught KeyboardInterrupt)"
  using must_interrupted [OF assms, of msg "snd (say a s)"]
  by (simp add: steps_pass steps_stop say_simps del: steps.simps)

lemma gated_succeeds_last:
  assumes "succeeds w (run_command_args c cwd sh ch cap)"
  shows "last (log (snd (steps [say a, must msg (run_command w c cwd sh ch cap), say b] s))) = Print b"
proof -
  have "fst (must msg (run_command w c cwd sh ch cap) (snd (say a s))) = None"
    using assms by (simp add: must_None)
  then show ?thesis
    by (simp add: steps_pass say_simps steps_single del: steps.simps)
qed

lemma gated_facts:
  "spawned (log (snd (steps [say a, must msg (run_command w c cwd sh ch cap), say b] s)))
     = spawned (log s) @ [run_command_args c cwd sh ch cap]"
  "removals (log (snd (steps [say a, must msg (run_command w c cwd sh ch cap), say b] s)))
     = removals (log s)"
  "path_exists (snd (steps [say a, must msg (run_command w c cwd sh ch cap), say b] s))
     = path_exists s"
proof -
  let ?m = "must msg (run_command w c cwd sh ch cap)"
  let ?g = "steps [say a, ?m, say b]"
  have "?g s = ?m (snd (say a s)) \<or> ?g s = say b (snd (?m (snd (say a s))))"
  proof (cases "fst (?m (snd (say a s)))")
    case None
    then show ?thesis by (simp add: steps_pass say_simps steps_single del: steps.simps)
  next
    case (Some t)
    then show ?thesis by (simp add: steps_pass steps_stop say_simps del: steps.simps)
  qed
  then show
    "spawned (log (snd (?g s))) = spawned (log s) @ [run_command_args c cwd sh ch cap]"
    "removals (log (snd (?g s))) = removals (log s)"
    "path_exists (snd (?g s)) = path_exists s"
    by (auto simp: must_facts say_simps spawned_append removals_append)
qed

subsection \<open>Steps 3, 4 and 6\<close>

lemma create_env_None: "fst (create_env w s) = None \<longleftrightarrow> succeeds w (create_args w)"
  by (simp add: create_env_def create_args_def gated_None del: steps.simps)

lemma create_env_fails:
  "fails w (create_args w) \<Longrightarrow> fst (create_env w s) = Some (SysExit 1)"
  "fails w (create_args w) \<Longrightarrow> last (log (snd (create_env w s))) = Print msg_create_failed"
  by (simp_all add: create_env_def create_args_def gated_fails del: steps.simps)

lemma create_env_facts:
  "spawned (log (snd (create_env w s))) = spawned (log s) @ [create_args w]"
  "removals (log (snd (create_env w s))) = removals (log s)"
  "path_exists (snd (create_env w s)) = path_exists s"
  by (simp_all add: create_env_def create_args_def gated_facts del: steps.simps)

lemma upgrade_pip_None: "fst (upgrade_pip w s) = None \<longleftrightarrow> succeeds w (upgrade_args w)"
  by (simp add: upgrade_pip_def upgrade_args_def gated_None del: steps.simps)

lemma upgrade_pip_fails:
  "fails w (upgrade_args w) \<Longrightarrow> fst (upgrade_pip w s) = Some (SysExit 1)"
  "fails w (upgrade_args w) \<Longrightarrow> last (log (snd (upgrade_pip w s))) = Print msg_upgrade_failed"
  by (simp_all add: upgrade_pip_def upgrade_args_def gated_fails del: steps.simps)

lemma upgrade_pip_facts:
  "spawned (log (snd (upgrade_pip w s))) = spawned (log s) @ [upgrade_args w]"
  "removals (log (snd (upgrade_pip w s))) = removals (log s)"
  "path_exists (snd (upgrade_pip w s)) = path_exists s"
  by (simp_all add: upgrade_pip_def upgrade_args_def gated_facts del: steps.simps)

lemma verify_None: "fst (verify w s) = None \<longleftrightarrow> succeeds w (verify_args w)"
  by (simp add: verify_def verify_args_def gated_None del: steps.simps)

lemma verify_fails:
  "fails w (verify_args w) \<Longrightarrow> fst (verify w s) = Some (SysExit 1)"
  "fails w (verify_args w) \<Longrightarrow> last (log (snd (verify w s))) = Print msg_test_failed"
  by (simp_all add: verify_def verify_args_def gated_fails del: steps.simps)

lemma verify_facts:
  "spawned (log (snd (verify w s))) = spawned (log s) @ [verify_args w]"
  "removals (log (snd (verify w s))) = removals (log s)"
  "path_exists (snd (verify w s)) = path_exists s"
  by (simp_all add: verify_def verify_args_def gated_facts del: steps.simps)

subsection \<open>Step 5\<close>

lemma install_package_None:
  "fst (install_package w p s) = None \<longleftrightarrow> succeeds w (install_args w p)"
  by (simp add: install_package_def install_args_def gated_None del: steps.simps)

lemma install_package_fails:
  "fails w (install_args w p) \<Longrightarrow> fst (install_package w p s) = Some (SysExit 1)"
  "fails w (install_args w p) \<Longrightarrow> last (log (snd (install_package w p s))) = Print (msg_install_error p)"
  by (simp_all add: install_package_def install_args_def gated_fails del: steps.simps)

lemma install_package_facts:
  "spawned (log (snd (install_package w p s))) = spawned (log s) @ [install_args w p]"
  "removals (log (snd (install_package w p s))) = removals (log s)"
  "path_exists (snd (install_package w p s)) = path_exists s"
  by (simp_all add: install_package_def install_args_def gated_facts del: steps.simps)

lemma install_loop_Cons_pass:
  "fst (install_package w p s) = None \<Longrightarrow>
     install_loop w (p # ps) s = install_loop w ps (snd (install_package w p s))"
  by (cases "install_package w p s") simp

lemma install_loop_Cons_stop:
  "fst (install_package w p s) = Some t \<Longrightarrow> install_loop w (p # ps) s = install_package w p s"
  by (cases "install_package w p s") simp

lemma install_loop_None:
  "fst (install_loop w ps s) = None \<longleftrightarrow> (\<forall>p \<in> set ps. succeeds w (install_args w p))"
proof (induction ps arbitrary: s)
  case Nil
  show ?case by simp
next
  case (Cons p ps)
  show ?case
  proof (cases "fst (install_package w p s)")
    case None
    then show ?thesis
      using Cons.IH [of "snd (install_package w p s)"]
      by (simp add: install_loop_Cons_pass install_package_None del: install_loop.simps)
  next
    case (Some t)
    then have "\<not> succeeds w (install_args w p)"
      using install_package_None [of w p s] by simp
    with Some show ?thesis
      by (simp add: install_loop_Cons_stop del: install_loop.simps)
  qed
qed

lemma install_loop_spawned:
  "spawned (log (snd (install_loop w ps s))) = spawned (log s) @ map (install_args w) (attempted w ps)"
proof (induction ps arbitrary: s)
  case Nil
  show ?case by simp
next
  case (Cons p ps)
  show ?case
  proof (cases "fst (install_package w p s)")
    case None
    then have "succeeds w (install_args w p)"
      by (simp add: install_package_None)
    with None show ?thesis
      using Cons.IH [of "snd (install_package w p s)"]
      by (simp add: install_loop_Cons_pass install_package_facts del: install_loop.simps)
  next
    case (Some t)
    then have "\<not> succeeds w (install_args w p)"
      using install_package_None [of w p s] by simp
    with Some show ?thesis
      by (simp add: install_loop_Cons_stop install_package_facts del: install_loop.simps)
  qed
qed

lemma install_loop_keeps:
  "removals (log (snd (install_loop w ps s))) = removals (log s)
   \<and> path_exists (snd (install_loop w ps s)) = path_exists s"
proof (induction ps arbitrary: s)
  case Nil
  show ?case by simp
next
  case (Cons p ps)
  show ?case
  proof (cases "fst (install_package w p s)")
    case None
    then show ?thesis
      using Cons.IH [of "snd (install_package w p s)"]
      by (simp add: install_loop_Cons_pass install_package_facts del: install_loop.simps)
  next
    case (Some t)
    then show ?thesis
      by (simp add: install_loop_Cons_stop install_package_facts del: install_loop.simps)
  qed
qed

text \<open>The first package whose installation fails, the earlier ones succeeding.\<close>

lemma install_loop_first_failure:
  assumes "k < length ps" and "\<forall>j<k. succeeds w (install_args w (ps ! j))"
    and "fails w (install_args w (ps ! k))"
  shows "fst (install_loop w ps s) = Some (SysExit 1)
       \<and> last (log (snd (install_loop w ps s))) = Print (msg_install_error (ps ! k))
       \<and> attempted w ps = take (Suc k) ps"
  using assms
proof (induction ps arbitrary: k s)
  case Nil
  then show ?case by simp
next
  case (Cons p ps)
  show ?case
  proof (cases k)
    case 0
    with Cons.prems have f: "fails w (install_args w p)" by simp
    then have "\<not> succeeds w (install_args w p)"
      using succeeds_not_fails by blast
    with f show ?thesis
      using 0 install_package_fails [OF f, of s]
      by (simp add: install_loop_Cons_stop del: install_loop.simps)
  next
    case (Suc k')
    with Cons.prems have ok: "succeeds w (install_args w p)" by auto
    from Suc Cons.prems have "k' < length ps" "\<forall>j<k'. succeeds w (install_args w (ps ! j))"
      "fails w (install_args w (ps ! k'))" by auto
    from Cons.IH [OF this, of "snd (install_package w p s)"] ok Suc show ?thesis
      by (simp add: install_loop_Cons_pass install_package_None del: install_loop.simps)
  qed
qed

lemma attempted_all: "(\<forall>p \<in> set ps. succeeds w (install_args w p)) \<Longrightarrow> attempted w ps = ps"
  by (induction ps) simp_all

lemma install_packages_unfold:
  "install_packages w s =
     (if fst (install_loop w packages_to_install (snd (say ''Installing Qiskit and its components (latest compatible versions)...'' s))) = None
      then say ''\<newline>All specified Qiskit components installed successfully!''
             (snd (install_loop w packages_to_install (snd (say ''Installing Qiskit and its components (latest compatible versions)...'' s))))
      else install_loop w packages_to_install (snd (say ''Installing Qiskit and its components (latest compatible versions)...'' s)))"
  by (auto simp: install_packages_def steps_pass steps_stop say_simps steps_single simp del: steps.simps)

lemma install_packages_None:
  "fst (install_packages w s) = None \<longleftrightarrow> (\<forall>p \<in> set packages_to_install. succeeds w (install_args w p))"
  by (simp add: install_packages_unfold install_loop_None say_simps)

lemma install_packages_facts:
  "spawned (log (snd (install_packages w s)))
     = spawned (log s) @ map (install_args w) (attempted w packages_to_install)"
  "removals (log (snd (install_packages w s))) = removals (log s)"
  "path_exists (snd (install_packages w s)) = path_exists s"
  by (simp_all add: install_packages_unfold install_loop_spawned install_loop_keeps say_simps
      spawned_append removals_append)

lemma install_packages_first_failure:
  assumes "k < length packages_to_install"
    and "\<forall>j<k. succeeds w (install_args w (packages_to_install ! j))"
    and "fails w (install_args w (packages_to_install ! k))"
  shows "fst (install_packages w s) = Some (SysExit 1)"
    and "last (log (snd (install_packages w s))) = Print (msg_install_error (packages_to_install ! k))"
  using install_loop_first_failure [OF assms,
      of "snd (say ''Installing Qiskit and its components (latest compatible versions)...'' s)"]
  by (simp_all add: install_packages_unfold)

subsection \<open>Step 1\<close>

lemma teardown_None:
  "fst (teardown w s) = None \<longleftrightarrow> (\<not> path_exists s (venv_dir w) \<or> shutil_rmtree w (venv_dir w) = None)"
  by (auto simp: teardown_def Let_def split: option.splits)

lemma teardown_fails:
  assumes "path_exists s (venv_dir w)" and "shutil_rmtree w (venv_dir w) = Some e" and "is_OSError e"
  shows "fst (teardown w s) = Some (SysExit 1)"
    and "last (log (snd (teardown w s))) = Print (msg_remove_error w e)"
    and "spawned (log (snd (teardown w s))) = spawned (log s)"
  using assms by (simp_all add: teardown_def Let_def log_print log_emit spawned_append)

lemma teardown_facts:
  "spawned (log (snd (teardown w s))) = spawned (log s)"
  "removals (log (snd (teardown w s)))
     = removals (log s) @ (if path_exists s (venv_dir w) then [venv_dir w] else [])"
  by (auto simp: teardown_def Let_def log_print log_emit spawned_append removals_append
      split: option.splits)

lemma teardown_absent:
  "fst (teardown w s) = None \<Longrightarrow> \<not> path_exists (snd (teardown w s)) (venv_dir w)"
  by (auto simp: teardown_def Let_def path_exists_print path_exists_emit split: option.splits if_splits)

subsection \<open>Step 2\<close>

lemma purge_cache_no_pip:
  "system_pip w = None \<Longrightarrow> purge_cache w s
     = (None, print msg_no_pip (print ''Attempting to clear pip cache for Qiskit residues...'' s))"
  by (auto simp: purge_cache_def system_pip_def Let_def split: option.splits if_splits)

lemma purge_cache_pip:
  "system_pip w = Some p \<Longrightarrow> purge_cache w s
     = (case run_command w (purge_command p) None False False False
               (print ''Attempting to clear pip cache for Qiskit residues...'' s) of
          (Inl e, s2) \<Rightarrow> (Some (Uncaught e), s2)
        | (Inr ok, s2) \<Rightarrow>
            if \<not> ok then (None, print msg_purge_warning s2) else (None, print msg_purge_done s2))"
  by (auto simp: purge_cache_def system_pip_def Let_def split: option.splits if_splits)

lemma purge_cache_None: "fst (purge_cache w s) = None \<longleftrightarrow> purge_passes w"
proof (cases "system_pip w")
  case None
  then show ?thesis by (simp add: purge_cache_no_pip purge_passes_def)
next
  case (Some p)
  let ?s1 = "print ''Attempting to clear pip cache for Qiskit residues...'' s"
  show ?thesis
  proof (cases "fst (run_command w (purge_command p) None False False False ?s1)")
    case (Inl e)
    then have "interrupted w (purge_args p)"
      by (simp add: fst_run_command_Inl purge_args_def)
    with Inl Some show ?thesis
      by (cases "run_command w (purge_command p) None False False False ?s1")
        (simp add: purge_cache_pip purge_passes_def)
  next
    case (Inr ok)
    then have "\<not> interrupted w (purge_args p)"
      using fst_run_command_Inl [of w "purge_command p" None False False False ?s1]
      by (auto simp: purge_args_def)
    with Inr Some show ?thesis
      by (cases "run_command w (purge_command p) None False False False ?s1")
        (simp add: purge_cache_pip purge_passes_def)
  qed
qed


lemma purge_cache_facts:
  "spawned (log (snd (purge_cache w s))) = spawned (log s) @ purge_spawn w"
  "removals (log (snd (purge_cache w s))) = removals (log s)"
  "path_exists (snd (purge_cache w s)) = path_exists s"
proof -
  let ?s1 = "print ''Attempting to clear pip cache for Qiskit residues...'' s"
  show "spawned (log (snd (purge_cache w s))) = spawned (log s) @ purge_spawn w"
  proof (cases "system_pip w")
    case None
    then show ?thesis by (simp add: purge_cache_no_pip purge_spawn_def log_print spawned_append)
  next
    case (Some p)
    then show ?thesis
      using spawned_run_command [of w "purge_command p" None False False False ?s1]
      by (auto simp: purge_cache_pip purge_spawn_def purge_args_def log_print spawned_append
          split: prod.splits sum.splits)
  qed
  show "removals (log (snd (purge_cache w s))) = removals (log s)"
  proof (cases "system_pip w")
    case None
    then show ?thesis by (simp add: purge_cache_no_pip log_print removals_append)
  next
    case (Some p)
    then show ?thesis
      using removals_run_command [of w "purge_command p" None False False False ?s1]
      by (auto simp: purge_cache_pip log_print removals_append split: prod.splits sum.splits)
  qed
  show "path_exists (snd (purge_cache w s)) = path_exists s"
  proof (cases "system_pip w")
    case None
    then show ?thesis by (simp add: purge_cache_no_pip path_exists_print)
  next
    case (Some p)
    then show ?thesis
      using path_exists_run_command [of w "purge_command p" None False False False ?s1]
      by (auto simp: purge_cache_pip path_exists_print split: prod.splits sum.splits)
  qed
qed


subsection \<open>Steps 7 and 8, and the banner\<close>

lemma launch_None: "fst (launch w s) = None \<longleftrightarrow> launched w"
  by (auto simp: launch_def launched_def subprocess_run_def interactive_args_def
      split: child_outcome.splits)

lemma launch_raises:
  assumes "os_child w (interactive_args w) = Raised e" and "is_Exception e"
  shows "fst (launch w s) = Some (SysExit 1)"
    and "last (log (snd (launch w s))) = Print (msg_launch_error w e)"
  using assms by (simp_all add: launch_def subprocess_run_def log_print)

lemma launch_facts:
  "spawned (log (snd (launch w s))) = spawned (log s) @ [interactive_args w]"
  "removals (log (snd (launch w s))) = removals (log s)"
  "path_exists (snd (launch w s)) = path_exists s"
  by (auto simp: launch_def subprocess_run_def interactive_args_def log_print log_emit
      spawned_append removals_append path_exists_print path_exists_emit
      split: child_outcome.splits)

lemma steps_Cons_if:
  "steps (f # fs) s = (if fst (f s) = None then steps fs (snd (f s)) else f s)"
  by (cases "f s") (auto split: option.splits)

lemma interactive_None: "fst (interactive w s) = None \<longleftrightarrow> launched w"
  by (simp add: interactive_def steps_Cons_if say_simps launch_None del: steps.simps(2))

lemma interactive_raises:
  assumes "os_child w (interactive_args w) = Raised e" and "is_Exception e"
  shows "fst (interactive w s) = Some (SysExit 1)"
    and "last (log (snd (interactive w s))) = Print (msg_launch_error w e)"
  using assms
  by (simp_all add: interactive_def steps_Cons_if say_simps launch_raises del: steps.simps(2))

lemma interactive_facts:
  "spawned (log (snd (interactive w s))) = spawned (log s) @ [interactive_args w]"
  "removals (log (snd (interactive w s))) = removals (log s)"
  "path_exists (snd (interactive w s)) = path_exists s"
  by (simp_all add: interactive_def steps_Cons_if say_simps launch_facts spawned_append
      removals_append del: steps.simps(2))

lemma guidance_facts:
  "fst (guidance w s) = None"
  "last (log (snd (guidance w s))) = Print (msg_reactivate w)"
  "spawned (log (snd (guidance w s))) = spawned (log s)"
  "removals (log (snd (guidance w s))) = removals (log s)"
  "path_exists (snd (guidance w s)) = path_exists s"
  by (simp_all add: guidance_def steps_Cons_if say_simps spawned_append
      removals_append del: steps.simps(2))

lemma banner_facts:
  "fst (banner s) = None"
  "spawned (log (snd (banner s))) = spawned (log s)"
  "removals (log (snd (banner s))) = removals (log s)"
  "path_exists (snd (banner s)) = path_exists s"
  by (simp_all add: banner_def steps_Cons_if say_simps spawned_append
      removals_append del: steps.simps(2))

subsection \<open>No step ends the run with exit code 0\<close>

lemma must_nonzero:
  "fst (must msg call s) = Some t \<Longrightarrow> \<not> exits_zero t"
  by (auto simp: must_def split: prod.splits sum.splits if_splits)

lemma gated_nonzero:
  "fst (steps [say a, must msg call, say b] s) = Some t \<Longrightarrow> \<not> exits_zero t"
  by (auto simp: steps_Cons_if say_simps simp del: steps.simps(2)
      split: if_splits dest: must_nonzero)

lemma install_loop_nonzero:
  "fst (install_loop w ps s) = Some t \<Longrightarrow> \<not> exits_zero t"
proof (induction ps arbitrary: s)
  case Nil
  then show ?case by simp
next
  case (Cons p ps)
  show ?case
  proof (cases "fst (install_package w p s)")
    case None
    with Cons show ?thesis
      by (simp add: install_loop_Cons_pass del: install_loop.simps)
  next
    case (Some u)
    with Cons.prems have "u = t"
      by (simp add: install_loop_Cons_stop del: install_loop.simps)
    with Some show ?thesis
      using gated_nonzero by (simp add: install_package_def del: steps.simps(2))
  qed
qed

lemma step_nonzero:
  "fst (teardown w s) = Some t \<Longrightarrow> \<not> exits_zero t"
  "fst (purge_cache w s) = Some t \<Longrightarrow> \<not> exits_zero t"
  "fst (create_env w s) = Some t \<Longrightarrow> \<not> exits_zero t"
  "fst (upgrade_pip w s) = Some t \<Longrightarrow> \<not> exits_zero t"
  "fst (install_packages w s) = Some t \<Longrightarrow> \<not> exits_zero t"
  "fst (verify w s) = Some t \<Longrightarrow> \<not> exits_zero t"
  "fst (interactive w s) = Some t \<Longrightarrow> \<not> exits_zero t"
proof -
  show "fst (teardown w s) = Some t \<Longrightarrow> \<not> exits_zero t"
    by (auto simp: teardown_def Let_def split: option.splits if_splits)
  show "fst (purge_cache w s) = Some t \<Longrightarrow> \<not> exits_zero t"
    by (auto simp: purge_cache_def Let_def split: option.splits if_splits prod.splits sum.splits)
  show "fst (create_env w s) = Some t \<Longrightarrow> \<not> exits_zero t"
    using gated_nonzero by (simp add: create_env_def del: steps.simps(2))
  show "fst (upgrade_pip w s) = Some t \<Longrightarrow> \<not> exits_zero t"
    using gated_nonzero by (simp add: upgrade_pip_def del: steps.simps(2))
  show "fst (verify w s) = Some t \<Longrightarrow> \<not> exits_zero t"
    using gated_nonzero by (simp add: verify_def del: steps.simps(2))
  show "fst (install_packages w s) = Some t \<Longrightarrow> \<not> exits_zero t"
    using install_loop_nonzero
    by (auto simp: install_packages_unfold say_simps split: if_splits)
  show "fst (interactive w s) = Some t \<Longrightarrow> \<not> exits_zero t"
    by (auto simp: interactive_def steps_Cons_if say_simps launch_def
        simp del: steps.simps(2) split: if_splits prod.splits sum.splits)
qed

lemma script_nonzero: "fst (script w s) = Some t \<Longrightarrow> \<not> exits_zero t"
  unfolding script_flat
  by (auto simp: steps_Cons_if banner_facts guidance_facts simp del: steps.simps(2)
      split: if_splits dest: step_nonzero)

lemma main_parts:
  "fst (main w fs) = (case fst (script w (initial fs)) of None \<Rightarrow> Finished | Some t \<Rightarrow> t)"
  "snd (main w fs) = snd (script w (initial fs))"
  by (auto simp: main_def split: prod.splits option.splits)

lemma main_exits_zero: "exits_zero (fst (main w fs)) \<longleftrightarrow> fst (script w (initial fs)) = None"
  using script_nonzero [of w "initial fs"]
  by (auto simp: main_parts split: option.splits)

lemma initial_facts:
  "log (initial fs) = []" "path_exists (initial fs) = fs"
  by (simp_all add: initial_def)

subsection \<open>The whole run\<close>

lemmas pass_iff =
  teardown_None purge_cache_None create_env_None upgrade_pip_None install_packages_None
  verify_None interactive_None

lemmas run_facts =
  banner_facts teardown_facts purge_cache_facts create_env_facts upgrade_pip_facts
  install_packages_facts verify_facts interactive_facts guidance_facts initial_facts

lemma installs_all_iff:
  "installs_all w \<longleftrightarrow> (\<forall>p \<in> set packages_to_install. succeeds w (install_args w p))"
  by (simp add: installs_all_def list_all_iff)

lemma main_teardown_error:
  assumes "fs (venv_dir w)" and "shutil_rmtree w (venv_dir w) = Some e" and "is_OSError e"
  shows "fst (main w fs) = SysExit 1"
    and "last (log (snd (main w fs))) = Print (msg_remove_error w e)"
    and "spawned (log (snd (main w fs))) = []"
  using assms
  by (simp_all add: main_parts script_flat steps_Cons_if pass_iff run_facts teardown_fails
      del: steps.simps(2))

lemma main_create_fails:
  assumes "teardown_passes w fs" and "purge_passes w" and "fails w (create_args w)"
  shows "fst (main w fs) = SysExit 1"
    and "last (log (snd (main w fs))) = Print msg_create_failed"
    and "spawned (log (snd (main w fs))) = purge_spawn w @ [create_args w]"
  using assms succeeds_not_fails [of w "create_args w"]
  by (auto simp: main_parts script_flat steps_Cons_if pass_iff run_facts create_env_fails
      teardown_passes_def simp del: steps.simps(2))

lemma main_upgrade_fails:
  assumes "teardown_passes w fs" and "purge_passes w" and "succeeds w (create_args w)"
    and "fails w (upgrade_args w)"
  shows "fst (main w fs) = SysExit 1"
    and "last (log (snd (main w fs))) = Print msg_upgrade_failed"
    and "spawned (log (snd (main w fs))) = purge_spawn w @ [create_args w, upgrade_args w]"
  using assms succeeds_not_fails [of w "upgrade_args w"]
  by (auto simp: main_parts script_flat steps_Cons_if pass_iff run_facts upgrade_pip_fails
      teardown_passes_def simp del: steps.simps(2))

lemma first_failure_not_all:
  assumes "k < length ps" and "fails w (install_args w (ps ! k))"
  shows "\<not> (\<forall>p \<in> set ps. succeeds w (install_args w p))"
  using assms succeeds_not_fails [of w "install_args w (ps ! k)"] nth_mem [of k ps] by blast

lemma main_install_fails:
  assumes "reaches_install w fs" and "k < length packages_to_install"
    and "\<forall>j<k. succeeds w (install_args w (packages_to_install ! j))"
    and "fails w (install_args w (packages_to_install ! k))"
  shows "fst (main w fs) = SysExit 1"
    and "last (log (snd (main w fs))) = Print (msg_install_error (packages_to_install ! k))"
    and "spawned (log (snd (main w fs)))
         = purge_spawn w @ [create_args w, upgrade_args w]
           @ map (install_args w) (take (Suc k) packages_to_install)"
    and "removals (log (snd (main w fs))) = (if fs (venv_dir w) then [venv_dir w] else [])"
proof -
  note na = first_failure_not_all [OF assms(2) assms(4)]
  note ff = install_packages_first_failure [OF assms(2) assms(3) assms(4)]
  have at: "attempted w packages_to_install = take (Suc k) packages_to_install"
    using install_loop_first_failure [OF assms(2) assms(3) assms(4)] by simp
  from assms(1) have r: "teardown_passes w fs" "purge_passes w" "succeeds w (create_args w)"
    "succeeds w (upgrade_args w)"
    by (simp_all add: reaches_install_def)
  from r na show "fst (main w fs) = SysExit 1"
    by (auto simp: main_parts script_flat steps_Cons_if pass_iff run_facts ff
        teardown_passes_def simp del: steps.simps(2))
  from r na show "last (log (snd (main w fs))) = Print (msg_install_error (packages_to_install ! k))"
    by (auto simp: main_parts script_flat steps_Cons_if pass_iff run_facts ff
        teardown_passes_def simp del: steps.simps(2))
  from r na show "spawned (log (snd (main w fs)))
         = purge_spawn w @ [create_args w, upgrade_args w]
           @ map (install_args w) (take (Suc k) packages_to_install)"
    by (auto simp: main_parts script_flat steps_Cons_if pass_iff run_facts at
        teardown_passes_def simp del: steps.simps(2))
  from r na show "removals (log (snd (main w fs))) = (if fs (venv_dir w) then [venv_dir w] else [])"
    by (auto simp: main_parts script_flat steps_Cons_if pass_iff run_facts
        teardown_passes_def simp del: steps.simps(2))
qed

lemma main_verify_fails:
  assumes "reaches_install w fs" and "installs_all w" and "fails w (verify_args w)"
  shows "fst (main w fs) = SysExit 1"
    and "last (log (snd (main w fs))) = Print msg_test_failed"
  using assms succeeds_not_fails [of w "verify_args w"]
  by (auto simp: main_parts script_flat steps_Cons_if pass_iff run_facts verify_fails
      teardown_passes_def reaches_install_def installs_all_iff simp del: steps.simps(2))

lemma launched_iff: "launched w \<longleftrightarrow> (\<exists>rc out err. os_child w (interactive_args w) = Exited rc out err)"
  by (auto simp: launched_def split: child_outcome.splits)

lemma main_launch_fails:
  assumes "reaches_launch w fs" and "os_child w (interactive_args w) = Raised e" and "is_Exception e"
  shows "fst (main w fs) = SysExit 1"
    and "last (log (snd (main w fs))) = Print (msg_launch_error w e)"
  using assms
  by (auto simp: main_parts script_flat steps_Cons_if pass_iff run_facts interactive_raises
      teardown_passes_def reaches_install_def reaches_launch_def installs_all_iff launched_def
      simp del: steps.simps(2))

lemma main_launched:
  assumes "reaches_launch w fs" and "launched w"
  shows "fst (main w fs) = Finished"
    and "last (log (snd (main w fs))) = Print (msg_reactivate w)"
    and "spawned (log (snd (main w fs)))
         = purge_spawn w @ [create_args w, upgrade_args w]
           @ map (install_args w) packages_to_install @ [verify_args w, interactive_args w]"
  using assms
  by (auto simp: main_parts script_flat steps_Cons_if pass_iff run_facts attempted_all
      teardown_passes_def reaches_install_def reaches_launch_def installs_all_iff
      simp del: steps.simps(2))

lemma steps_fst_None:
  "fst (steps (f # fs) s) = None \<longleftrightarrow> fst (f s) = None \<and> fst (steps fs (snd (f s))) = None"
  by (auto simp: steps_Cons_if simp del: steps.simps(2))

lemma main_zero_iff:
  "exits_zero (fst (main w fs)) \<longleftrightarrow> reaches_launch w fs \<and> launched w"
  by (simp add: main_exits_zero script_flat steps_fst_None pass_iff run_facts
      teardown_passes_def reaches_install_def reaches_launch_def installs_all_iff
      del: steps.simps(2))

subsection \<open>Steps that do not read the state\<close>

lemma uniformI:
  assumes "\<And>s. f s = (r, s\<lparr>log := log s @ evs\<rparr>)"
  shows "uniform f"
proof -
  have b: "f blank = (r, blank\<lparr>log := log blank @ evs\<rparr>)" by (rule assms)
  have fb: "fst (f blank) = r"
    by (simp only: b fst_conv)
  have "log (snd (f blank)) = log blank @ evs"
    by (simp only: b snd_conv) simp
  then have ev: "events_of f = evs"
    by (simp add: events_of_def blank_def)
  show ?thesis
    unfolding uniform_def fb ev using assms by blast
qed

lemma uniformD: "uniform f \<Longrightarrow> f s = (fst (f blank), s\<lparr>log := log s @ events_of f\<rparr>)"
  unfolding uniform_def by blast

lemma uniform_say: "uniform (say t)"
  by (rule uniformI [of _ None "[Print t]"]) (simp add: say_def print_def emit_def)

lemma run_command_blank:
  "run_command w c cwd sh ch cap s
   = (fst (run_command w c cwd sh ch cap blank),
      s\<lparr>log := log s @ log (snd (run_command w c cwd sh ch cap blank))\<rparr>)"
  by (auto simp: run_command_def subprocess_run_def print_if_text_def print_def emit_def
      blank_def Let_def split: child_outcome.splits py_exception.splits option.splits)

lemma uniform_must: "uniform (must msg (run_command w c cwd sh ch cap))"
proof (cases "fst (run_command w c cwd sh ch cap blank)")
  case (Inl e)
  show ?thesis
  proof (rule uniformI [of _ "Some (Uncaught e)" "log (snd (run_command w c cwd sh ch cap blank))"])
    fix s
    show "must msg (run_command w c cwd sh ch cap) s
          = (Some (Uncaught e), s\<lparr>log := log s @ log (snd (run_command w c cwd sh ch cap blank))\<rparr>)"
      using Inl run_command_blank [of w c cwd sh ch cap s] by (simp add: must_def)
  qed
next
  case (Inr ok)
  show ?thesis
  proof (cases ok)
    case True
    show ?thesis
    proof (rule uniformI [of _ None "log (snd (run_command w c cwd sh ch cap blank))"])
      fix s
      show "must msg (run_command w c cwd sh ch cap) s
            = (None, s\<lparr>log := log s @ log (snd (run_command w c cwd sh ch cap blank))\<rparr>)"
        using Inr True run_command_blank [of w c cwd sh ch cap s] by (simp add: must_def)
    qed
  next
    case False
    show ?thesis
    proof (rule uniformI [of _ "Some (SysExit 1)"
          "log (snd (run_command w c cwd sh ch cap blank)) @ [Print msg]"])
      fix s
      show "must msg (run_command w c cwd sh ch cap) s
            = (Some (SysExit 1),
               s\<lparr>log := log s @ log (snd (run_command w c cwd sh ch cap blank)) @ [Print msg]\<rparr>)"
        using Inr False run_command_blank [of w c cwd sh ch cap s]
        by (simp add: must_def print_def emit_def)
    qed
  qed
qed

lemma uniform_Cons:
  assumes "uniform f" and "uniform (steps fs)"
  shows "uniform (steps (f # fs))"
proof (cases "fst (f blank)")
  case None
  show ?thesis
  proof (rule uniformI [of _ "fst (steps fs blank)" "events_of f @ events_of (steps fs)"])
    fix s
    have 1: "f s = (None, s\<lparr>log := log s @ events_of f\<rparr>)"
      using uniformD [OF assms(1), of s] None by simp
    have 2: "steps fs (s\<lparr>log := log s @ events_of f\<rparr>)
             = (fst (steps fs blank), s\<lparr>log := (log s @ events_of f) @ events_of (steps fs)\<rparr>)"
      using uniformD [OF assms(2), of "s\<lparr>log := log s @ events_of f\<rparr>"] by simp
    show "steps (f # fs) s
          = (fst (steps fs blank), s\<lparr>log := log s @ events_of f @ events_of (steps fs)\<rparr>)"
      using 1 2 by simp
  qed
next
  case (Some t)
  show ?thesis
  proof (rule uniformI [of _ "Some t" "events_of f"])
    fix s
    show "steps (f # fs) s = (Some t, s\<lparr>log := log s @ events_of f\<rparr>)"
      using uniformD [OF assms(1), of s] Some by simp
  qed
qed

lemma uniform_Nil: "uniform (steps [])"
  by (rule uniformI [of _ None "[]"]) simp

lemma uniform_steps: "(\<And>f. f \<in> set fs \<Longrightarrow> uniform f) \<Longrightarrow> uniform (steps fs)"
  by (induction fs) (simp_all add: uniform_Nil uniform_Cons del: steps.simps)

lemma uniform_install_package: "uniform (install_package w p)"
  unfolding install_package_def
  by (rule uniform_steps) (auto simp: uniform_say uniform_must)

lemma install_loop_steps: "install_loop w ps = steps (map (install_package w) ps)"
proof
  fix s show "install_loop w ps s = steps (map (install_package w) ps) s"
    by (induction ps arbitrary: s) (auto split: prod.splits option.splits)
qed

lemma uniform_install_loop: "uniform (install_loop w ps)"
  unfolding install_loop_steps
  by (rule uniform_steps) (auto simp: uniform_install_package)

lemma uniform_purge_cache: "uniform (purge_cache w)"
proof (cases "system_pip w")
  case None
  show ?thesis
    by (rule uniformI [of _ None
          "[Print ''Attempting to clear pip cache for Qiskit residues...'', Print msg_no_pip]"])
      (simp add: purge_cache_no_pip [OF None] print_def emit_def)
next
  case (Some p)
  let ?rc = "run_command w (purge_command p) None False False False"
  let ?a = "Print ''Attempting to clear pip cache for Qiskit residues...''"
  show ?thesis
  proof (cases "fst (?rc blank)")
    case (Inl e)
    show ?thesis
    proof (rule uniformI [of _ "Some (Uncaught e)" "?a # log (snd (?rc blank))"])
      fix s
      show "purge_cache w s = (Some (Uncaught e), s\<lparr>log := log s @ ?a # log (snd (?rc blank))\<rparr>)"
        using Inl run_command_blank [of w "purge_command p" None False False False
            "print ''Attempting to clear pip cache for Qiskit residues...'' s"]
        by (simp add: purge_cache_pip [OF Some] print_def emit_def)
    qed
  next
    case (Inr ok)
    show ?thesis
    proof (rule uniformI [of _ None "?a # log (snd (?rc blank))
              @ [Print (if ok then msg_purge_done else msg_purge_warning)]"])
      fix s
      show "purge_cache w s = (None, s\<lparr>log := log s @ ?a # log (snd (?rc blank))
              @ [Print (if ok then msg_purge_done else msg_purge_warning)]\<rparr>)"
        using Inr run_command_blank [of w "purge_command p" None False False False
            "print ''Attempting to clear pip cache for Qiskit residues...'' s"]
        by (simp add: purge_cache_pip [OF Some] print_def emit_def)
    qed
  qed
qed

lemma uniform_launch: "uniform (launch w)"
proof (cases "os_child w (interactive_args w)")
  case (Exited rc out err)
  show ?thesis
    by (rule uniformI [of _ None "[Spawn (interactive_args w)]"])
      (use Exited in \<open>simp add: launch_def subprocess_run_def interactive_args_def emit_def\<close>)
next
  case (Raised e)
  show ?thesis
  proof (cases "is_Exception e")
    case True
    show ?thesis
      by (rule uniformI [of _ "Some (SysExit 1)"
            "[Spawn (interactive_args w), Print (msg_launch_error w e)]"])
        (use Raised True in \<open>simp add: launch_def subprocess_run_def emit_def print_def\<close>)
  next
    case False
    show ?thesis
      by (rule uniformI [of _ "Some (Uncaught e)" "[Spawn (interactive_args w)]"])
        (use Raised False in \<open>simp add: launch_def subprocess_run_def emit_def\<close>)
  qed
qed

lemma uniform_after_teardown: "uniform (after_teardown w)"
  unfolding after_teardown_def
proof (rule uniform_steps)
  fix f
  assume "f \<in> set [purge_cache w, create_env w, upgrade_pip w, install_packages w, verify w,
      interactive w, guidance w]"
  then consider "f = purge_cache w" | "f = create_env w" | "f = upgrade_pip w"
    | "f = install_packages w" | "f = verify w" | "f = interactive w" | "f = guidance w"
    by auto
  then show "uniform f"
  proof cases
    case 1 then show ?thesis by (simp add: uniform_purge_cache)
  next
    case 2 then show ?thesis
      unfolding create_env_def by (auto intro!: uniform_steps simp: uniform_say uniform_must)
  next
    case 3 then show ?thesis
      unfolding upgrade_pip_def by (auto intro!: uniform_steps simp: uniform_say uniform_must)
  next
    case 4 then show ?thesis
      unfolding install_packages_def
      by (auto intro!: uniform_steps simp: uniform_say uniform_install_loop)
  next
    case 5 then show ?thesis
      unfolding verify_def by (auto intro!: uniform_steps simp: uniform_say uniform_must)
  next
    case 6 then show ?thesis
      unfolding interactive_def by (auto intro!: uniform_steps simp: uniform_say uniform_launch)
  next
    case 7 then show ?thesis
      unfolding guidance_def by (auto intro!: uniform_steps simp: uniform_say)
  qed
qed

section \<open>The command runner\<close>



text \<open>
  C4, as the code has it. Every exception of the class \<open>Exception\<close> that the invocation
  raises is caught: \<open>run_command\<close> returns \<open>False\<close> and the last thing it prints is a
  diagnostic, which is the "command not found" message exactly in the \<open>FileNotFoundError\<close>
  case. A non-zero return code under \<open>check\<close> (the \<open>CalledProcessError\<close> of
  \<^verbatim>\<open>subprocess.run\<close>) gives \<open>False\<close> and the error details. The only exception that leaves
  \<open>run_command\<close> is a \<open>KeyboardInterrupt\<close> raised by the invocation, which
  \<^verbatim>\<open>except Exception\<close> does not catch.
\<close>

theorem run_command_catches_exceptions:
  "(os_child w (run_command_args command cwd shell check capture_output) = Raised e \<and> is_Exception e
      \<longrightarrow> fst (run_command w command cwd shell check capture_output s) = Inr False
        \<and> (\<exists>m. last (log (snd (run_command w command cwd shell check capture_output s))) = Print m
               \<and> (m = msg_command_not_found \<longleftrightarrow> (\<exists>x. e = FileNotFoundError x))))
   \<and> (os_child w (run_command_args command cwd shell check capture_output) = Exited rc out err
        \<and> check \<and> rc \<noteq> 0
      \<longrightarrow> fst (run_command w command cwd shell check capture_output s) = Inr False
        \<and> last (log (snd (run_command w command cwd shell check capture_output s)))
            = Print (''Error details: '' @ str_CalledProcessError w command rc))
   \<and> (fst (run_command w command cwd shell check capture_output s) = Inl e'
      \<longrightarrow> e' = KeyboardInterrupt
        \<and> os_child w (run_command_args command cwd shell check capture_output) = Raised KeyboardInterrupt)"
proof (intro conjI impI)
  assume a: "os_child w (run_command_args command cwd shell check capture_output) = Raised e \<and> is_Exception e"
  then show "fst (run_command w command cwd shell check capture_output s) = Inr False"
    by (cases e) (simp_all add: run_command_def subprocess_run_def)
  from a show "\<exists>m. last (log (snd (run_command w command cwd shell check capture_output s))) = Print m
               \<and> (m = msg_command_not_found \<longleftrightarrow> (\<exists>x. e = FileNotFoundError x))"
    by (cases e) (simp_all add: run_command_def subprocess_run_def log_print msg_command_not_found_def)
next
  assume a: "os_child w (run_command_args command cwd shell check capture_output) = Exited rc out err
        \<and> check \<and> rc \<noteq> 0"
  then have c: "os_child w (run_command_args command cwd shell True capture_output) = Exited rc out err"
    and d: "check" and n: "rc \<noteq> 0"
    by auto
  from c d n show "fst (run_command w command cwd shell check capture_output s) = Inr False"
    by (simp add: run_command_def subprocess_run_def run_command_args_def)
  from c d n show "last (log (snd (run_command w command cwd shell check capture_output s)))
            = Print (''Error details: '' @ str_CalledProcessError w command rc)"
    by (simp add: run_command_def subprocess_run_def run_command_args_def log_print)
next
  assume a: "fst (run_command w command cwd shell check capture_output s) = Inl e'"
  then show "e' = KeyboardInterrupt"
    by (simp add: fst_run_command_Inl)
  from a show "os_child w (run_command_args command cwd shell check capture_output) = Raised KeyboardInterrupt"
    by (auto simp: fst_run_command_Inl interrupted_def split: child_outcome.splits elim: is_Exception.elims)
qed

theorem run_command_catches_exceptions_witness:
  "fst (run_command (linux_world (only_on ''pip'' (Raised (FileNotFoundError ''No such file''))))
          (CmdList [''pip'']) None False True True (initial nothing_there)) = Inr False
   \<and> (\<exists>m. last (log (snd (run_command (linux_world (only_on ''pip'' (Raised (FileNotFoundError ''No such file''))))
          (CmdList [''pip'']) None False True True (initial nothing_there)))) = Print m
         \<and> m = msg_command_not_found)
   \<and> fst (run_command (linux_world (only_on ''pip'' (Exited 1 [] [])))
          (CmdList [''pip'']) None False True True (initial nothing_there)) = Inr False
   \<and> fst (run_command (linux_world (only_on ''pip'' (Raised KeyboardInterrupt)))
          (CmdList [''pip'']) None False True True (initial nothing_there)) = Inl KeyboardInterrupt"
  using run_command_catches_exceptions [of
      "linux_world (only_on ''pip'' (Raised (FileNotFoundError ''No such file'')))"
      "CmdList [''pip'']" None False True True "FileNotFoundError ''No such file''"
      "initial nothing_there" 1 "[]" "[]" KeyboardInterrupt]
    run_command_catches_exceptions [of
      "linux_world (only_on ''pip'' (Exited 1 [] []))"
      "CmdList [''pip'']" None False True True "FileNotFoundError ''No such file''"
      "initial nothing_there" 1 "[]" "[]" KeyboardInterrupt]
    run_command_catches_exceptions [of
      "linux_world (only_on ''pip'' (Raised KeyboardInterrupt))"
      "CmdList [''pip'']" None False True True "FileNotFoundError ''No such file''"
      "initial nothing_there" 1 "[]" "[]" KeyboardInterrupt]
  by (simp add: linux_world_def only_on_def last_word_def run_command_args_def
      run_command_def subprocess_run_def)

text \<open>
  C4 as stated (no exception ever reaches the caller) fails when the user interrupts the
  child: the \<open>KeyboardInterrupt\<close> passes through \<open>run_command\<close>.
\<close>

theorem run_command_interrupt_counterexample:
  "fst (run_command (linux_world (only_on ''pip'' (Raised KeyboardInterrupt)))
          (CmdList [''pip'']) None False True True (initial nothing_there)) = Inl KeyboardInterrupt"
  by (simp add: linux_world_def only_on_def last_word_def run_command_args_def
      run_command_def subprocess_run_def)

section \<open>The provisioning sequence\<close>

subsection \<open>Evaluating the example worlds\<close>

lemma qiskit_test_script_neq:
  "w = [] \<or> hd w \<noteq> CHR 0x0A \<Longrightarrow> (qiskit_test_script = w) = False"
  by (auto simp: qiskit_test_script_def)

lemma qiskit_test_script_neq_sym:
  "w = [] \<or> hd w \<noteq> CHR 0x0A \<Longrightarrow> (w = qiskit_test_script) = False"
  by (auto simp: qiskit_test_script_def)

lemmas world_defs =
  linux_world_def windows_world_def all_well_def only_on_def last_word_def nothing_there_def
  env_there_def purge_args_def create_args_def upgrade_args_def install_args_def verify_args_def
  interactive_args_def run_command_args_def purge_command_def create_command_def
  upgrade_command_def install_command_def verify_command_def venv_dir_def pip_path_def
  python_path_def succeeds_def fails_def interrupted_def system_pip_def purge_spawn_def
  purge_passes_def teardown_passes_def launched_def reaches_install_def reaches_launch_def
  installs_all_def packages_to_install_def qiskit_test_script_neq

subsection \<open>Teardown and cache purge\<close>

text \<open>
  C7. When the environment directory exists and its removal raises an \<open>OSError\<close>, the run ends
  with \<^verbatim>\<open>sys.exit(1)\<close>, the last thing printed is the removal error, and no process at all
  has been started: no cache purge, no creation, no upgrade, no installation.
\<close>

theorem teardown_error_is_fatal:
  assumes "fs (venv_dir w)" and "shutil_rmtree w (venv_dir w) = Some e" and "is_OSError e"
  shows "fst (main w fs) = SysExit 1
       \<and> last (log (snd (main w fs))) = Print (msg_remove_error w e)
       \<and> spawned (log (snd (main w fs))) = []"
  using main_teardown_error [of fs w e, OF assms] by simp

theorem teardown_error_is_fatal_witness:
  "fst (main (windows_world all_well) (\<lambda>p. True)) = SysExit 1
   \<and> last (log (snd (main (windows_world all_well) (\<lambda>p. True))))
       = Print ''Error removing old virtual environment: Access is denied''
   \<and> spawned (log (snd (main (windows_world all_well) (\<lambda>p. True)))) = []"
proof -
  have h2: "shutil_rmtree (windows_world all_well) (venv_dir (windows_world all_well))
            = Some (OSError ''Access is denied'')"
    by (simp add: windows_world_def)
  show ?thesis
    using teardown_error_is_fatal [of "\<lambda>p. True" "windows_world all_well", OF _ h2]
    by (simp add: msg_remove_error_def)
qed

text \<open>
  C5. When steps 1 and 2 let the run go on, the rest of the script starts step 3 in a state
  in which the environment directory is absent, and the removals so far are exactly the one of
  the directory if it existed at the start, none otherwise. When the directory is absent, the
  teardown removes nothing and lets the run go on. The steps after the teardown end the same
  way and emit the same events from every state; so whenever the teardown passes, the outcome
  of the run and the events after the teardown do not depend on whether the directory existed.
\<close>

theorem teardown_precedes_creation:
  "(fst (steps [banner, teardown w, purge_cache w] (initial fs)) = None
      \<longrightarrow> script w (initial fs)
          = steps [create_env w, upgrade_pip w, install_packages w, verify w, interactive w,
                   guidance w] (state_at_creation w fs)
        \<and> \<not> path_exists (state_at_creation w fs) (venv_dir w)
        \<and> removals (log (state_at_creation w fs)) = (if fs (venv_dir w) then [venv_dir w] else []))
   \<and> (\<not> path_exists s (venv_dir w)
      \<longrightarrow> fst (teardown w s) = None \<and> removals (log (snd (teardown w s))) = removals (log s))
   \<and> after_teardown w s
       = (fst (after_teardown w blank), s\<lparr>log := log s @ events_of (after_teardown w)\<rparr>)
   \<and> (teardown_passes w fs
      \<longrightarrow> fst (main w fs) = (case fst (after_teardown w blank) of None \<Rightarrow> Finished | Some t \<Rightarrow> t)
        \<and> log (snd (main w fs))
            = log (snd (teardown w (snd (banner (initial fs))))) @ events_of (after_teardown w))"
proof (intro conjI impI)
  assume a: "fst (steps [banner, teardown w, purge_cache w] (initial fs)) = None"
  then have t: "fst (teardown w (snd (banner (initial fs)))) = None"
    and p: "fst (purge_cache w (snd (teardown w (snd (banner (initial fs)))))) = None"
    by (simp_all add: steps_fst_None banner_facts del: steps.simps(2))
  have sc: "state_at_creation w fs = snd (purge_cache w (snd (teardown w (snd (banner (initial fs))))))"
    using t p by (simp add: state_at_creation_def steps_Cons_if banner_facts del: steps.simps(2))
  show "script w (initial fs)
          = steps [create_env w, upgrade_pip w, install_packages w, verify w, interactive w,
                   guidance w] (state_at_creation w fs)"
    using t p by (simp add: script_flat sc steps_pass banner_facts del: steps.simps(2))
  show "\<not> path_exists (state_at_creation w fs) (venv_dir w)"
    using teardown_absent [OF t] by (simp add: sc purge_cache_facts)
  show "removals (log (state_at_creation w fs)) = (if fs (venv_dir w) then [venv_dir w] else [])"
    by (simp add: sc run_facts)
next
  assume "\<not> path_exists s (venv_dir w)"
  then show "fst (teardown w s) = None" "removals (log (snd (teardown w s))) = removals (log s)"
    by (simp_all add: teardown_None teardown_facts)
next
  show "after_teardown w s
       = (fst (after_teardown w blank), s\<lparr>log := log s @ events_of (after_teardown w)\<rparr>)"
    by (rule uniformD [OF uniform_after_teardown])
next
  assume "teardown_passes w fs"
  then have t: "fst (teardown w (snd (banner (initial fs)))) = None"
    by (simp add: teardown_None banner_facts initial_facts teardown_passes_def)
  have sc: "script w (initial fs) = after_teardown w (snd (teardown w (snd (banner (initial fs)))))"
    using t by (simp add: script_def steps_pass steps_single banner_facts del: steps.simps(2))
  note u = uniformD [OF uniform_after_teardown, of w "snd (teardown w (snd (banner (initial fs))))"]
  show "fst (main w fs) = (case fst (after_teardown w blank) of None \<Rightarrow> Finished | Some t \<Rightarrow> t)"
    by (simp only: main_parts sc u fst_conv)
  show "log (snd (main w fs))
            = log (snd (teardown w (snd (banner (initial fs))))) @ events_of (after_teardown w)"
    by (simp only: main_parts sc u snd_conv) simp
qed

theorem teardown_precedes_creation_witness:
  "\<not> path_exists (state_at_creation (linux_world all_well) env_there) ''/home/u/Qisclick/qisclick_env''
   \<and> removals (log (state_at_creation (linux_world all_well) env_there))
       = [''/home/u/Qisclick/qisclick_env'']
   \<and> removals (log (state_at_creation (linux_world all_well) nothing_there)) = []
   \<and> fst (main (linux_world all_well) env_there) = fst (main (linux_world all_well) nothing_there)
   \<and> drop 7 (log (snd (main (linux_world all_well) env_there)))
       = drop 5 (log (snd (main (linux_world all_well) nothing_there)))"
proof -
  let ?w = "linux_world all_well"
  have v: "venv_dir ?w = ''/home/u/Qisclick/qisclick_env''"
    by (simp add: venv_dir_def linux_world_def)
  have ta: "teardown_passes ?w env_there" and tb: "teardown_passes ?w nothing_there"
    and pp: "purge_passes ?w"
    by (simp_all add: world_defs)
  have ra: "fst (steps [banner, teardown ?w, purge_cache ?w] (initial env_there)) = None"
    using ta pp
    by (simp add: steps_fst_None banner_facts teardown_None purge_cache_None initial_facts
        teardown_passes_def del: steps.simps(2))
  have rb: "fst (steps [banner, teardown ?w, purge_cache ?w] (initial nothing_there)) = None"
    using tb pp
    by (simp add: steps_fst_None banner_facts teardown_None purge_cache_None initial_facts
        teardown_passes_def del: steps.simps(2))
  have rm: "shutil_rmtree ?w ''/home/u/Qisclick/qisclick_env'' = None"
    by (simp add: linux_world_def)
  have la: "length (log (snd (teardown ?w (snd (banner (initial env_there)))))) = 7"
    by (simp add: teardown_def banner_def say_def print_def emit_def initial_def v rm
        env_there_def)
  have lb: "length (log (snd (teardown ?w (snd (banner (initial nothing_there)))))) = 5"
    by (simp add: teardown_def banner_def say_def print_def emit_def initial_def v
        nothing_there_def)
  show ?thesis
    using teardown_precedes_creation [of ?w env_there "initial nothing_there"]
      teardown_precedes_creation [of ?w nothing_there "initial nothing_there"]
      ra rb ta tb la lb
    by (simp add: v env_there_def nothing_there_def)
qed




subsection \<open>Paths, upgrade and installation\<close>

text \<open>
  C8. On the platform \<open>Windows\<close> the pip and python of the environment are the joins of the
  environment directory with \<open>Scripts\<close>, \<open>pip.exe\<close> and \<open>Scripts\<close>, \<open>python.exe\<close>; on every
  other platform with \<open>bin\<close>, \<open>pip\<close> and \<open>bin\<close>, \<open>python\<close>. The upgrade runs that pip, and its
  failure ends the run with \<^verbatim>\<open>sys.exit(1)\<close> after the upgrade message, with nothing started
  after it.
\<close>

theorem venv_paths_by_platform:
  "(platform_system w = ''Windows''
      \<longrightarrow> pip_path w = os_path_join w (venv_dir w) [''Scripts'', ''pip.exe'']
        \<and> python_path w = os_path_join w (venv_dir w) [''Scripts'', ''python.exe''])
   \<and> (platform_system w \<noteq> ''Windows''
      \<longrightarrow> pip_path w = os_path_join w (venv_dir w) [''bin'', ''pip'']
        \<and> python_path w = os_path_join w (venv_dir w) [''bin'', ''python''])
   \<and> ra_args (upgrade_args w) = CmdList [pip_path w, ''install'', ''--upgrade'', ''pip'']
   \<and> (teardown_passes w fs \<and> purge_passes w \<and> succeeds w (create_args w)
        \<and> fails w (upgrade_args w)
      \<longrightarrow> fst (main w fs) = SysExit 1
        \<and> last (log (snd (main w fs))) = Print msg_upgrade_failed
        \<and> spawned (log (snd (main w fs))) = purge_spawn w @ [create_args w, upgrade_args w])"
  using main_upgrade_fails [of w fs]
  by (simp add: pip_path_def python_path_def upgrade_args_def upgrade_command_def
      run_command_args_def)

theorem venv_paths_by_platform_witness:
  "pip_path (windows_world (only_on ''pip'' (Exited 1 [] [])))
     = ''C:'' @ [CHR 0x5C] @ ''Qisclick'' @ [CHR 0x5C] @ ''qisclick_env'' @ [CHR 0x5C]
       @ ''Scripts'' @ [CHR 0x5C] @ ''pip.exe''
   \<and> python_path (windows_world (only_on ''pip'' (Exited 1 [] [])))
     = ''C:'' @ [CHR 0x5C] @ ''Qisclick'' @ [CHR 0x5C] @ ''qisclick_env'' @ [CHR 0x5C]
       @ ''Scripts'' @ [CHR 0x5C] @ ''python.exe''
   \<and> pip_path (linux_world (only_on ''pip'' (Exited 1 [] [])))
     = ''/home/u/Qisclick/qisclick_env/bin/pip''
   \<and> python_path (linux_world (only_on ''pip'' (Exited 1 [] [])))
     = ''/home/u/Qisclick/qisclick_env/bin/python''
   \<and> fails (windows_world (only_on ''pip'' (Exited 1 [] [])))
        (upgrade_args (windows_world (only_on ''pip'' (Exited 1 [] []))))
   \<and> fst (main (windows_world (only_on ''pip'' (Exited 1 [] []))) nothing_there) = SysExit 1
   \<and> last (log (snd (main (windows_world (only_on ''pip'' (Exited 1 [] []))) nothing_there)))
       = Print ''Failed to upgrade pip. Exiting.''
   \<and> fst (main (linux_world (only_on ''pip'' (Exited 1 [] []))) nothing_there) = SysExit 1"
proof -
  let ?w = "windows_world (only_on ''pip'' (Exited 1 [] []))"
  let ?l = "linux_world (only_on ''pip'' (Exited 1 [] []))"
  have hw: "teardown_passes ?w nothing_there \<and> purge_passes ?w \<and> succeeds ?w (create_args ?w)
        \<and> fails ?w (upgrade_args ?w)"
    by (simp add: world_defs)
  have hl: "teardown_passes ?l nothing_there \<and> purge_passes ?l \<and> succeeds ?l (create_args ?l)
        \<and> fails ?l (upgrade_args ?l)"
    by (simp add: world_defs)
  have pw: "platform_system ?w = ''Windows''" and pl: "platform_system ?l \<noteq> ''Windows''"
    by (simp_all add: windows_world_def linux_world_def)
  show ?thesis
    using venv_paths_by_platform [of ?w nothing_there] venv_paths_by_platform [of ?l nothing_there]
      hw hl pw pl
    by (simp add: msg_upgrade_failed_def venv_dir_def windows_world_def linux_world_def)
qed

text \<open>
  C2. The packages of the fixed list are installed in list order. When the installation of
  the package at position \<open>k\<close> fails (\<open>run_command\<close> returns \<open>False\<close>) after the earlier ones
  succeeded, the run ends at once with \<^verbatim>\<open>sys.exit(1)\<close>; the last thing printed is the installation
  error for that package; the processes started in the whole run are the cache purge (if
  any), the creation, the upgrade and the installations of the first \<open>k + 1\<close> packages in
  order, so that no later package is attempted and the verification never runs; and nothing is
  removed apart from the teardown of step 1.
\<close>

theorem install_stops_at_first_failure:
  assumes "reaches_install w fs" and "k < length packages_to_install"
    and "\<forall>j<k. succeeds w (install_args w (packages_to_install ! j))"
    and "fails w (install_args w (packages_to_install ! k))"
  shows "fst (main w fs) = SysExit 1
       \<and> last (log (snd (main w fs))) = Print (msg_install_error (packages_to_install ! k))
       \<and> spawned (log (snd (main w fs)))
           = purge_spawn w @ [create_args w, upgrade_args w]
             @ map (install_args w) (take (Suc k) packages_to_install)
       \<and> removals (log (snd (main w fs))) = (if fs (venv_dir w) then [venv_dir w] else [])"
  using main_install_fails [OF assms] by simp

theorem install_stops_at_first_failure_witness:
  "reaches_install (linux_world (only_on ''qiskit-aer'' (Exited 1 [] ''no network''))) nothing_there
   \<and> fails (linux_world (only_on ''qiskit-aer'' (Exited 1 [] ''no network'')))
        (install_args (linux_world (only_on ''qiskit-aer'' (Exited 1 [] ''no network''))) ''qiskit-aer'')
   \<and> fst (main (linux_world (only_on ''qiskit-aer'' (Exited 1 [] ''no network''))) nothing_there)
       = SysExit 1
   \<and> last (log (snd (main (linux_world (only_on ''qiskit-aer'' (Exited 1 [] ''no network'')))
         nothing_there)))
       = Print ''Error installing qiskit-aer. Please check your internet connection. Exiting.''
   \<and> map ra_args (spawned (log (snd (main
         (linux_world (only_on ''qiskit-aer'' (Exited 1 [] ''no network''))) nothing_there))))
       = [CmdList [''/usr/bin/pip'', ''cache'', ''purge''],
          CmdList [''/usr/bin/python3'', ''-m'', ''venv'', ''/home/u/Qisclick/qisclick_env''],
          CmdList [''/home/u/Qisclick/qisclick_env/bin/pip'', ''install'', ''--upgrade'', ''pip''],
          CmdList [''/home/u/Qisclick/qisclick_env/bin/pip'', ''install'', ''qiskit''],
          CmdList [''/home/u/Qisclick/qisclick_env/bin/pip'', ''install'', ''qiskit-aer'']]
   \<and> removals (log (snd (main
         (linux_world (only_on ''qiskit-aer'' (Exited 1 [] ''no network''))) nothing_there))) = []"
proof -
  let ?w = "linux_world (only_on ''qiskit-aer'' (Exited 1 [] ''no network''))"
  have h1: "reaches_install ?w nothing_there"
    by (simp add: world_defs)
  have h2: "(1::nat) < length packages_to_install"
    by (simp add: packages_to_install_def)
  have h3: "\<forall>j<1. succeeds ?w (install_args ?w (packages_to_install ! j))"
    by (simp add: world_defs)
  have h4: "fails ?w (install_args ?w (packages_to_install ! 1))"
    by (simp add: world_defs)
  show ?thesis
    using install_stops_at_first_failure [OF h1 h2 h3 h4] h1 h4
    by (simp add: packages_to_install_def msg_install_error_def purge_spawn_def system_pip_def
        linux_world_def purge_args_def create_args_def upgrade_args_def install_args_def
        run_command_args_def purge_command_def create_command_def upgrade_command_def
        install_command_def venv_dir_def pip_path_def nothing_there_def)
qed

text \<open>
  C10. The package list is \<open>qiskit\<close>, \<open>qiskit-aer\<close>, \<open>qiskit-ibm-runtime\<close>, \<open>qiskit-terra\<close>, in
  that order; a package is installed by the command of three words: the pip of the
  environment, \<open>install\<close>, and the bare name; and a run that gets through starts exactly the
  cache purge (if any), the creation, the upgrade, the four installations in that order, the
  verification and the interpreter.
\<close>

theorem package_list_and_commands:
  "packages_to_install = [''qiskit'', ''qiskit-aer'', ''qiskit-ibm-runtime'', ''qiskit-terra'']
   \<and> install_args w p = run_command_args (CmdList [pip_path w, ''install'', p]) None False True True
   \<and> (reaches_launch w fs \<and> launched w
      \<longrightarrow> spawned (log (snd (main w fs)))
          = purge_spawn w
            @ [create_args w, upgrade_args w, install_args w ''qiskit'',
               install_args w ''qiskit-aer'', install_args w ''qiskit-ibm-runtime'',
               install_args w ''qiskit-terra'', verify_args w, interactive_args w])"
  using main_launched [of w fs]
  by (simp add: packages_to_install_def install_args_def install_command_def)

theorem package_list_and_commands_witness:
  "reaches_launch (linux_world all_well) nothing_there \<and> launched (linux_world all_well)
   \<and> map ra_args (spawned (log (snd (main (linux_world all_well) nothing_there))))
     = [CmdList [''/usr/bin/pip'', ''cache'', ''purge''],
        CmdList [''/usr/bin/python3'', ''-m'', ''venv'', ''/home/u/Qisclick/qisclick_env''],
        CmdList [''/home/u/Qisclick/qisclick_env/bin/pip'', ''install'', ''--upgrade'', ''pip''],
        CmdList [''/home/u/Qisclick/qisclick_env/bin/pip'', ''install'', ''qiskit''],
        CmdList [''/home/u/Qisclick/qisclick_env/bin/pip'', ''install'', ''qiskit-aer''],
        CmdList [''/home/u/Qisclick/qisclick_env/bin/pip'', ''install'', ''qiskit-ibm-runtime''],
        CmdList [''/home/u/Qisclick/qisclick_env/bin/pip'', ''install'', ''qiskit-terra''],
        CmdList [''/home/u/Qisclick/qisclick_env/bin/python'', ''-c'', qiskit_test_script],
        CmdStr ''/home/u/Qisclick/qisclick_env/bin/python'']"
proof -
  have r: "reaches_launch (linux_world all_well) nothing_there"
    and l: "launched (linux_world all_well)"
    by (simp_all add: world_defs)
  show ?thesis
    using package_list_and_commands [of "linux_world all_well" "''qiskit''" nothing_there] r l
    by (simp add: purge_spawn_def system_pip_def linux_world_def purge_args_def create_args_def
        upgrade_args_def verify_args_def interactive_args_def run_command_args_def
        purge_command_def create_command_def upgrade_command_def verify_command_def
        install_args_def install_command_def venv_dir_def pip_path_def python_path_def)
qed

subsection \<open>Interactive session and exit code\<close>

text \<open>
  C9. In a run that reaches step 7: when the interactive interpreter runs and exits, with
  whatever return code, the run finishes with exit code 0 and the last thing printed is the
  reactivation command of the platform; when the invocation raises an exception of class
  \<open>Exception\<close>, the run ends with \<^verbatim>\<open>sys.exit(1)\<close> after the launch error; and the exit code is
  0 exactly when the interpreter was launched.
\<close>

theorem interactive_exit_status_ignored:
  "(reaches_launch w fs \<and> os_child w (interactive_args w) = Exited rc out err
      \<longrightarrow> fst (main w fs) = Finished \<and> exits_zero (fst (main w fs))
        \<and> last (log (snd (main w fs)))
            = Print (if platform_system w = ''Windows''
                     then os_path_join w (venv_dir w) [''Scripts'', ''activate.bat'']
                     else ''source '' @ os_path_join w (venv_dir w) [''bin'', ''activate'']))
   \<and> (reaches_launch w fs \<and> os_child w (interactive_args w) = Raised e \<and> is_Exception e
      \<longrightarrow> fst (main w fs) = SysExit 1
        \<and> last (log (snd (main w fs))) = Print (msg_launch_error w e))
   \<and> (reaches_launch w fs
      \<longrightarrow> (exits_zero (fst (main w fs))
           \<longleftrightarrow> (\<exists>c out' err'. os_child w (interactive_args w) = Exited c out' err')))"
proof (intro conjI impI)
  assume a: "reaches_launch w fs \<and> os_child w (interactive_args w) = Exited rc out err"
  then have l: "launched w" by (simp add: launched_def)
  from a l main_launched [of w fs]
  show "fst (main w fs) = Finished" "exits_zero (fst (main w fs))"
    "last (log (snd (main w fs)))
            = Print (if platform_system w = ''Windows''
                     then os_path_join w (venv_dir w) [''Scripts'', ''activate.bat'']
                     else ''source '' @ os_path_join w (venv_dir w) [''bin'', ''activate''])"
    by (simp_all add: msg_reactivate_def)
next
  assume a: "reaches_launch w fs \<and> os_child w (interactive_args w) = Raised e \<and> is_Exception e"
  then show "fst (main w fs) = SysExit 1"
    "last (log (snd (main w fs))) = Print (msg_launch_error w e)"
    using main_launch_fails [of w fs e] by simp_all
next
  assume "reaches_launch w fs"
  then show "exits_zero (fst (main w fs))
           \<longleftrightarrow> (\<exists>c out' err'. os_child w (interactive_args w) = Exited c out' err')"
    by (simp add: main_zero_iff launched_iff)
qed

theorem interactive_exit_status_ignored_witness:
  "os_child (linux_world (only_on ''/home/u/Qisclick/qisclick_env/bin/python'' (Exited 3 [] [])))
     (interactive_args (linux_world (only_on ''/home/u/Qisclick/qisclick_env/bin/python'' (Exited 3 [] []))))
     = Exited 3 [] []
   \<and> fst (main (linux_world (only_on ''/home/u/Qisclick/qisclick_env/bin/python'' (Exited 3 [] [])))
          nothing_there) = Finished
   \<and> last (log (snd (main (linux_world (only_on ''/home/u/Qisclick/qisclick_env/bin/python'' (Exited 3 [] [])))
          nothing_there)))
       = Print ''source /home/u/Qisclick/qisclick_env/bin/activate''
   \<and> fst (main (linux_world (only_on ''/home/u/Qisclick/qisclick_env/bin/python''
          (Raised (OSError ''Exec format error'')))) nothing_there) = SysExit 1
   \<and> last (log (snd (main (linux_world (only_on ''/home/u/Qisclick/qisclick_env/bin/python''
          (Raised (OSError ''Exec format error'')))) nothing_there)))
       = Print ''Error launching interactive Python interpreter: Exec format error''"
proof -
  let ?a = "linux_world (only_on ''/home/u/Qisclick/qisclick_env/bin/python'' (Exited 3 [] []))"
  let ?b = "linux_world (only_on ''/home/u/Qisclick/qisclick_env/bin/python''
              (Raised (OSError ''Exec format error'')))"
  have ra: "reaches_launch ?a nothing_there" and rb: "reaches_launch ?b nothing_there"
    by (simp_all add: world_defs)
  have ca: "os_child ?a (interactive_args ?a) = Exited 3 [] []"
    and cb: "os_child ?b (interactive_args ?b) = Raised (OSError ''Exec format error'')"
    by (simp_all add: world_defs)
  show ?thesis
    using interactive_exit_status_ignored [of ?a nothing_there 3 "[]" "[]" "OSError ''Exec format error''"]
      interactive_exit_status_ignored [of ?b nothing_there 3 "[]" "[]" "OSError ''Exec format error''"]
      ra rb ca cb
    by (simp add: msg_launch_error_def venv_dir_def linux_world_def)
qed

text \<open>
  C6, as the code has it. The exit code is 0 exactly when the teardown passes, the cache purge
  is not interrupted, the creation, the upgrade, every installation and the verification
  succeed, and the interactive interpreter is launched, whatever the return code of the
  session. Each fatal failure (removal error, creation, upgrade, the first failing
  installation, verification, launch) ends the run with \<^verbatim>\<open>sys.exit(1)\<close>, and the last thing
  printed is the message of that failure.
\<close>

theorem exit_code_of_run:
  "(exits_zero (fst (main w fs)) \<longleftrightarrow> reaches_launch w fs \<and> launched w)
   \<and> (fs (venv_dir w) \<and> shutil_rmtree w (venv_dir w) = Some e \<and> is_OSError e
      \<longrightarrow> fst (main w fs) = SysExit 1
        \<and> last (log (snd (main w fs))) = Print (msg_remove_error w e))
   \<and> (teardown_passes w fs \<and> purge_passes w \<and> fails w (create_args w)
      \<longrightarrow> fst (main w fs) = SysExit 1
        \<and> last (log (snd (main w fs))) = Print msg_create_failed)
   \<and> (teardown_passes w fs \<and> purge_passes w \<and> succeeds w (create_args w)
        \<and> fails w (upgrade_args w)
      \<longrightarrow> fst (main w fs) = SysExit 1
        \<and> last (log (snd (main w fs))) = Print msg_upgrade_failed)
   \<and> (reaches_install w fs \<and> k < length packages_to_install
        \<and> (\<forall>j<k. succeeds w (install_args w (packages_to_install ! j)))
        \<and> fails w (install_args w (packages_to_install ! k))
      \<longrightarrow> fst (main w fs) = SysExit 1
        \<and> last (log (snd (main w fs))) = Print (msg_install_error (packages_to_install ! k)))
   \<and> (reaches_install w fs \<and> installs_all w \<and> fails w (verify_args w)
      \<longrightarrow> fst (main w fs) = SysExit 1
        \<and> last (log (snd (main w fs))) = Print msg_test_failed)
   \<and> (reaches_launch w fs \<and> os_child w (interactive_args w) = Raised e' \<and> is_Exception e'
      \<longrightarrow> fst (main w fs) = SysExit 1
        \<and> last (log (snd (main w fs))) = Print (msg_launch_error w e'))"
proof (intro conjI impI)
  show "exits_zero (fst (main w fs)) \<longleftrightarrow> reaches_launch w fs \<and> launched w"
    by (rule main_zero_iff)
next
  assume "fs (venv_dir w) \<and> shutil_rmtree w (venv_dir w) = Some e \<and> is_OSError e"
  then show "fst (main w fs) = SysExit 1"
    "last (log (snd (main w fs))) = Print (msg_remove_error w e)"
    using main_teardown_error [of fs w e] by simp_all
next
  assume "teardown_passes w fs \<and> purge_passes w \<and> fails w (create_args w)"
  then show "fst (main w fs) = SysExit 1"
    "last (log (snd (main w fs))) = Print msg_create_failed"
    using main_create_fails [of w fs] by simp_all
next
  assume "teardown_passes w fs \<and> purge_passes w \<and> succeeds w (create_args w)
        \<and> fails w (upgrade_args w)"
  then show "fst (main w fs) = SysExit 1"
    "last (log (snd (main w fs))) = Print msg_upgrade_failed"
    using main_upgrade_fails [of w fs] by simp_all
next
  assume "reaches_install w fs \<and> k < length packages_to_install
        \<and> (\<forall>j<k. succeeds w (install_args w (packages_to_install ! j)))
        \<and> fails w (install_args w (packages_to_install ! k))"
  then show "fst (main w fs) = SysExit 1"
    "last (log (snd (main w fs))) = Print (msg_install_error (packages_to_install ! k))"
    using main_install_fails [of w fs k] by simp_all
next
  assume "reaches_install w fs \<and> installs_all w \<and> fails w (verify_args w)"
  then show "fst (main w fs) = SysExit 1"
    "last (log (snd (main w fs))) = Print msg_test_failed"
    using main_verify_fails [of w fs] by simp_all
next
  assume "reaches_launch w fs \<and> os_child w (interactive_args w) = Raised e' \<and> is_Exception e'"
  then show "fst (main w fs) = SysExit 1"
    "last (log (snd (main w fs))) = Print (msg_launch_error w e')"
    using main_launch_fails [of w fs e'] by simp_all
qed

theorem exit_code_of_run_witness:
  "exits_zero (fst (main (linux_world all_well) nothing_there))
   \<and> fst (main (windows_world all_well) (\<lambda>p. True)) = SysExit 1
   \<and> last (log (snd (main (windows_world all_well) (\<lambda>p. True))))
       = Print ''Error removing old virtual environment: Access is denied''
   \<and> fst (main (linux_world (only_on ''/home/u/Qisclick/qisclick_env'' (Exited 1 [] [])))
          nothing_there) = SysExit 1
   \<and> last (log (snd (main (linux_world (only_on ''/home/u/Qisclick/qisclick_env'' (Exited 1 [] [])))
          nothing_there))) = Print ''Failed to create virtual environment. Exiting.''
   \<and> fst (main (linux_world (only_on ''pip'' (Exited 1 [] []))) nothing_there) = SysExit 1
   \<and> last (log (snd (main (linux_world (only_on ''pip'' (Exited 1 [] []))) nothing_there)))
       = Print ''Failed to upgrade pip. Exiting.''
   \<and> fst (main (linux_world (only_on ''qiskit-terra'' (Raised (FileNotFoundError ''gone''))))
          nothing_there) = SysExit 1
   \<and> last (log (snd (main (linux_world (only_on ''qiskit-terra'' (Raised (FileNotFoundError ''gone''))))
          nothing_there)))
       = Print ''Error installing qiskit-terra. Please check your internet connection. Exiting.''
   \<and> fst (main (linux_world (only_on qiskit_test_script (Exited 1 [] []))) nothing_there)
       = SysExit 1
   \<and> last (log (snd (main (linux_world (only_on qiskit_test_script (Exited 1 [] [])))
          nothing_there)))
       = Print ''Qiskit test failed. Please review the output above for errors.''
   \<and> fst (main (linux_world (only_on ''/home/u/Qisclick/qisclick_env/bin/python''
          (Raised (OSError ''Exec format error'')))) nothing_there) = SysExit 1
   \<and> last (log (snd (main (linux_world (only_on ''/home/u/Qisclick/qisclick_env/bin/python''
          (Raised (OSError ''Exec format error'')))) nothing_there)))
       = Print ''Error launching interactive Python interpreter: Exec format error''"
proof -
  let ?ok = "linux_world all_well"
  let ?td = "windows_world all_well"
  let ?cr = "linux_world (only_on ''/home/u/Qisclick/qisclick_env'' (Exited 1 [] []))"
  let ?up = "linux_world (only_on ''pip'' (Exited 1 [] []))"
  let ?ins = "linux_world (only_on ''qiskit-terra'' (Raised (FileNotFoundError ''gone'')))"
  let ?ver = "linux_world (only_on qiskit_test_script (Exited 1 [] []))"
  let ?lau = "linux_world (only_on ''/home/u/Qisclick/qisclick_env/bin/python''
                (Raised (OSError ''Exec format error'')))"
  have ok: "reaches_launch ?ok nothing_there \<and> launched ?ok"
    by (simp add: world_defs)
  have td: "shutil_rmtree ?td (venv_dir ?td) = Some (OSError ''Access is denied'')"
    by (simp add: windows_world_def)
  have cr: "teardown_passes ?cr nothing_there \<and> purge_passes ?cr \<and> fails ?cr (create_args ?cr)"
    by (simp add: world_defs)
  have up: "teardown_passes ?up nothing_there \<and> purge_passes ?up \<and> succeeds ?up (create_args ?up)
        \<and> fails ?up (upgrade_args ?up)"
    by (simp add: world_defs)
  have ins: "reaches_install ?ins nothing_there \<and> (3::nat) < length packages_to_install
        \<and> (\<forall>j<3. succeeds ?ins (install_args ?ins (packages_to_install ! j)))
        \<and> fails ?ins (install_args ?ins (packages_to_install ! 3))"
    by (simp add: world_defs All_less_Suc numeral_3_eq_3)
  have ver: "reaches_install ?ver nothing_there \<and> installs_all ?ver \<and> fails ?ver (verify_args ?ver)"
    by (simp add: world_defs qiskit_test_script_neq_sym)
  have lau: "reaches_launch ?lau nothing_there
        \<and> os_child ?lau (interactive_args ?lau) = Raised (OSError ''Exec format error'')"
    by (simp add: world_defs)
  have i3: "packages_to_install ! 3 = ''qiskit-terra''"
    by (simp add: packages_to_install_def)
  from exit_code_of_run [of ?ok nothing_there] ok
  have 1: "exits_zero (fst (main ?ok nothing_there))" by simp
  from exit_code_of_run [of ?td "\<lambda>p. True" "OSError ''Access is denied''"] td
  have 2: "fst (main ?td (\<lambda>p. True)) = SysExit 1
      \<and> last (log (snd (main ?td (\<lambda>p. True))))
          = Print ''Error removing old virtual environment: Access is denied''"
    by (simp add: msg_remove_error_def)
  from exit_code_of_run [of ?cr nothing_there] cr
  have 3: "fst (main ?cr nothing_there) = SysExit 1
      \<and> last (log (snd (main ?cr nothing_there)))
          = Print ''Failed to create virtual environment. Exiting.''"
    by (simp add: msg_create_failed_def)
  from exit_code_of_run [of ?up nothing_there] up
  have 4: "fst (main ?up nothing_there) = SysExit 1
      \<and> last (log (snd (main ?up nothing_there))) = Print ''Failed to upgrade pip. Exiting.''"
    by (simp add: msg_upgrade_failed_def)
  from exit_code_of_run [of ?ins nothing_there _ 3] ins i3
  have 5: "fst (main ?ins nothing_there) = SysExit 1
      \<and> last (log (snd (main ?ins nothing_there)))
          = Print ''Error installing qiskit-terra. Please check your internet connection. Exiting.''"
    by (simp add: msg_install_error_def)
  from exit_code_of_run [of ?ver nothing_there] ver
  have 6: "fst (main ?ver nothing_there) = SysExit 1
      \<and> last (log (snd (main ?ver nothing_there)))
          = Print ''Qiskit test failed. Please review the output above for errors.''"
    by (simp add: msg_test_failed_def)
  from exit_code_of_run [of ?lau nothing_there _ _ "OSError ''Exec format error''"] lau
  have 7: "fst (main ?lau nothing_there) = SysExit 1
      \<and> last (log (snd (main ?lau nothing_there)))
          = Print ''Error launching interactive Python interpreter: Exec format error''"
    by (simp add: msg_launch_error_def)
  from 1 2 3 4 5 6 7 show ?thesis by simp
qed

text \<open>
  C6 as stated (exit code 0 exactly when every step succeeds, up to and including a clean
  exit of the interactive session) fails: the session exits with return code 3 and the exit
  code of the run is 0.
\<close>

theorem exit_zero_after_unclean_session_counterexample:
  "os_child (linux_world (only_on ''/home/u/Qisclick/qisclick_env/bin/python'' (Exited 3 [] [])))
     (interactive_args
       (linux_world (only_on ''/home/u/Qisclick/qisclick_env/bin/python'' (Exited 3 [] []))))
     = Exited 3 [] []
   \<and> exits_zero (fst (main
         (linux_world (only_on ''/home/u/Qisclick/qisclick_env/bin/python'' (Exited 3 [] [])))
         nothing_there))
   \<and> \<not> spec_full_success
         (linux_world (only_on ''/home/u/Qisclick/qisclick_env/bin/python'' (Exited 3 [] [])))
         nothing_there"
proof -
  let ?w = "linux_world (only_on ''/home/u/Qisclick/qisclick_env/bin/python'' (Exited 3 [] []))"
  have c: "os_child ?w (interactive_args ?w) = Exited 3 [] []"
    by (simp add: world_defs)
  have r: "reaches_launch ?w nothing_there"
    by (simp add: world_defs)
  from c r show ?thesis
    by (simp add: main_zero_iff launched_def spec_full_success_def)
qed

end
